theory Spec2Isabelle
  imports Complex_Main
begin

section \<open>Python values, exceptions and number formatting\<close>

text \<open>
  The values the dashboard handles are Python scalars: \<open>None\<close>, integers, floats and
  strings. A finite float is modelled by its exact rational value, NaN is a value of its
  own; the rounding of floating-point arithmetic and the infinities are not modelled.
\<close>

datatype pyval = PNone | PInt int | PFloat rat | PNaN | PStr string

text \<open>
  The exceptions that the modelled code can raise. \<open>Unmodelled\<close> marks a format template
  outside the fragment of Python's format mini-language that \<open>py_format\<close> interprets.
\<close>

datatype error = TypeError | ValueError | KeyError | IndexError | OverflowError | Unmodelled

text \<open>\<open>math.isnan\<close>: a number is accepted, anything else raises TypeError.\<close>

fun isnan :: "pyval \<Rightarrow> error + bool" where
  "isnan PNaN = Inr True"
| "isnan (PInt n) = Inr False"
| "isnan (PFloat x) = Inr False"
| "isnan PNone = Inl TypeError"
| "isnan (PStr s) = Inl TypeError"

text \<open>The rational value of a number (0 for what is not a finite number).\<close>

fun num_of :: "pyval \<Rightarrow> rat" where
  "num_of (PInt n) = of_int n"
| "num_of (PFloat x) = x"
| "num_of v = 0"

fun is_num :: "pyval \<Rightarrow> bool" where
  "is_num (PInt n) = True"
| "is_num (PFloat x) = True"
| "is_num v = False"

text \<open>Python's \<open>round\<close> to an integer: ties go to the even neighbour.\<close>

definition py_round :: "rat \<Rightarrow> int" where
  "py_round x =
     (let f = \<lfloor>x\<rfloor>; d = x - of_int f
      in if d < 1 / 2 then f
         else if 1 / 2 < d then f + 1
         else if even f then f else f + 1)"

definition digit_char :: "nat \<Rightarrow> char" where
  "digit_char n = ''0123456789'' ! (n mod 10)"

fun show_nat :: "nat \<Rightarrow> string" where
  "show_nat n = (if n < 10 then [digit_char n] else show_nat (n div 10) @ [digit_char (n mod 10)])"

declare show_nat.simps [simp del]

definition show_int :: "int \<Rightarrow> string" where
  "show_int i = (if i < 0 then ''-'' @ show_nat (nat (- i)) else show_nat (nat i))"

text \<open>The \<open>,\<close> option of a format specification: groups of three digits from the right.\<close>

fun group3 :: "string \<Rightarrow> string" where
  "group3 s =
     (if length s \<le> 3 then s
      else group3 (take (length s - 3) s) @ '','' @ drop (length s - 3) s)"

declare group3.simps [simp del]

text \<open>Left padding with zeros to a given width, for the fractional digits.\<close>

definition zero_pad :: "nat \<Rightarrow> string \<Rightarrow> string" where
  "zero_pad w s = replicate (w - length s) CHR ''0'' @ s"

text \<open>
  The presentation type \<open>f\<close> with precision \<open>d\<close>, optionally with the sign option \<open>+\<close>
  and the grouping option \<open>,\<close>: the value is rounded to \<open>d\<close> fractional digits, ties to
  even, and a negative value keeps its sign even when it rounds to zero.
\<close>

definition fmt_fixed :: "bool \<Rightarrow> bool \<Rightarrow> nat \<Rightarrow> rat \<Rightarrow> string" where
  "fmt_fixed sign_plus grouping d x =
     (let n = nat (py_round (\<bar>x\<bar> * 10 ^ d));
          ip = show_nat (n div 10 ^ d);
          fp = (if d = 0 then [] else ''.'' @ zero_pad d (show_nat (n mod 10 ^ d)))
      in (if x < 0 then ''-'' else if sign_plus then ''+'' else [])
         @ (if grouping then group3 ip else ip) @ fp)"

text \<open>\<open>str.upper\<close> on the ASCII letters; other characters are left as they are.\<close>

definition upper_char :: "char \<Rightarrow> char" where
  "upper_char c =
     (case map_of (zip ''abcdefghijklmnopqrstuvwxyz'' ''ABCDEFGHIJKLMNOPQRSTUVWXYZ'') c of
        None \<Rightarrow> c | Some u \<Rightarrow> u)"

definition upper :: "string \<Rightarrow> string" where
  "upper s = map upper_char s"

section \<open>The formatting library (utils/helpers.py)\<close>

text \<open>
  \<open>decimal_places\<close> is a natural number: the callers pass a single decimal digit or leave
  the default.
\<close>

definition format_currency :: "pyval \<Rightarrow> string \<Rightarrow> nat \<Rightarrow> error + string" where
  "format_currency v currency_symbol decimal_places =
     (if v = PNone then Inr ''N/A''
      else case isnan v of
             Inl e \<Rightarrow> Inl e
           | Inr True \<Rightarrow> Inr ''N/A''
           | Inr False \<Rightarrow> Inr (currency_symbol @ fmt_fixed False True decimal_places (num_of v)))"

definition format_percentage :: "pyval \<Rightarrow> nat \<Rightarrow> error + string" where
  "format_percentage v decimal_places =
     (if v = PNone then Inr ''N/A''
      else case isnan v of
             Inl e \<Rightarrow> Inl e
           | Inr True \<Rightarrow> Inr ''N/A''
           | Inr False \<Rightarrow> Inr (fmt_fixed False False decimal_places (num_of v * 100) @ ''%''))"

text \<open>
  \<open>calculate_delta_percentage\<close>: the checks run in the source's order, so a string operand
  raises TypeError in \<open>math.isnan\<close> only when no operand before it is \<open>None\<close>.
\<close>

definition calculate_delta_percentage :: "pyval \<Rightarrow> pyval \<Rightarrow> error + rat option" where
  "calculate_delta_percentage current_value previous_value =
     (if current_value = PNone \<or> previous_value = PNone then Inr None
      else case isnan current_value of
             Inl e \<Rightarrow> Inl e
           | Inr True \<Rightarrow> Inr None
           | Inr False \<Rightarrow>
               (case isnan previous_value of
                  Inl e \<Rightarrow> Inl e
                | Inr True \<Rightarrow> Inr None
                | Inr False \<Rightarrow>
                    if num_of previous_value = 0
                    then (if num_of current_value = 0 then Inr (Some 0) else Inr None)
                    else Inr (Some ((num_of current_value - num_of previous_value)
                                    / num_of previous_value))))"

definition units :: "(string \<times> nat) list" where
  "units = [(''KB'', 1), (''MB'', 2), (''GB'', 3), (''TB'', 4)]"

definition format_bytes :: "pyval \<Rightarrow> string \<Rightarrow> nat \<Rightarrow> error + string" where
  "format_bytes bytes_value unit decimal_places =
     (if bytes_value = PNone then Inr ''N/A''
      else case isnan bytes_value of
             Inl e \<Rightarrow> Inl e
           | Inr True \<Rightarrow> Inr ''N/A''
           | Inr False \<Rightarrow>
               (case map_of units (upper unit) of
                  None \<Rightarrow> Inl ValueError
                | Some pw \<Rightarrow>
                    Inr (fmt_fixed False True decimal_places (num_of bytes_value / 1024 ^ pw)
                         @ '' '' @ upper unit)))"

definition format_duration_seconds :: "pyval \<Rightarrow> nat \<Rightarrow> error + string" where
  "format_duration_seconds seconds decimal_places =
     (if seconds = PNone then Inr ''N/A''
      else case isnan seconds of
             Inl e \<Rightarrow> Inl e
           | Inr True \<Rightarrow> Inr ''N/A''
           | Inr False \<Rightarrow>
               (let s = py_round (num_of seconds);
                    sec = (\<lambda>n. fmt_fixed False False decimal_places (of_int n) @ ''s'')
                in if s < 60 then Inr (sec s)
                   else let minutes = s div 60; s = s mod 60
                        in if minutes < 60 then Inr (show_int minutes @ ''m '' @ sec s)
                           else let hours = minutes div 60; minutes = minutes mod 60
                                in if hours < 24
                                   then Inr (show_int hours @ ''h '' @ show_int minutes @ ''m ''
                                             @ sec s)
                                   else let days = hours div 24; hours = hours mod 24
                                        in Inr (show_int days @ ''d '' @ show_int hours @ ''h ''
                                                @ show_int minutes @ ''m '' @ sec s)))"

section \<open>The period calculator (core/data_fetcher.py)\<close>

text \<open>
  A \<open>datetime.date\<close> is modelled by its proleptic Gregorian ordinal: day 1 is 0001-01-01
  (\<open>date.min\<close>) and day 3652059 is 9999-12-31 (\<open>date.max\<close>). The difference of two dates is
  a number of days; subtracting days from a date raises OverflowError when the result
  leaves the range of the type.
\<close>

type_synonym date = int

definition MINORDINAL :: int where
  "MINORDINAL = 1"

definition MAXORDINAL :: int where
  "MAXORDINAL = 3652059"

definition valid_date :: "date \<Rightarrow> bool" where
  "valid_date d = (MINORDINAL \<le> d \<and> d \<le> MAXORDINAL)"

definition date_minus_days :: "date \<Rightarrow> int \<Rightarrow> error + date" where
  "date_minus_days d n =
     (let r = d - n in if MINORDINAL \<le> r \<and> r \<le> MAXORDINAL then Inr r else Inl OverflowError)"

definition calculate_prev_period_dates :: "date \<Rightarrow> date \<Rightarrow> error + (date \<times> date)" where
  "calculate_prev_period_dates start_date end_date =
     (let duration = end_date - start_date
      in case date_minus_days start_date 1 of
           Inl e \<Rightarrow> Inl e
         | Inr prev_end_date \<Rightarrow>
             (case date_minus_days prev_end_date duration of
                Inl e \<Rightarrow> Inl e
              | Inr prev_start_date \<Rightarrow> Inr (prev_start_date, prev_end_date)))"

section \<open>Python operators on scalars\<close>

text \<open>
  \<open>str(x)\<close> and an empty replacement field of an f-string. The repr of a float (the
  shortest decimal that reads back as the same double) is a Python built-in and not part
  of this repository: it is the parameter \<open>float_repr\<close>.
\<close>

fun py_str :: "(rat \<Rightarrow> string) \<Rightarrow> pyval \<Rightarrow> string" where
  "py_str float_repr PNone = ''None''"
| "py_str float_repr (PInt n) = show_int n"
| "py_str float_repr (PFloat x) = float_repr x"
| "py_str float_repr PNaN = ''nan''"
| "py_str float_repr (PStr s) = s"

text \<open>
  \<open>v > c\<close> and \<open>v < c\<close> for a number \<open>c\<close>: NaN compares false, None and strings raise
  TypeError.
\<close>

fun py_gt :: "pyval \<Rightarrow> rat \<Rightarrow> error + bool" where
  "py_gt (PInt n) c = Inr (c < of_int n)"
| "py_gt (PFloat x) c = Inr (c < x)"
| "py_gt PNaN c = Inr False"
| "py_gt PNone c = Inl TypeError"
| "py_gt (PStr s) c = Inl TypeError"

fun py_lt :: "pyval \<Rightarrow> rat \<Rightarrow> error + bool" where
  "py_lt (PInt n) c = Inr (of_int n < c)"
| "py_lt (PFloat x) c = Inr (x < c)"
| "py_lt PNaN c = Inr False"
| "py_lt PNone c = Inl TypeError"
| "py_lt (PStr s) c = Inl TypeError"

text \<open>
  True division \<open>a / b\<close> by a number \<open>b\<close> that the caller has found to be non-zero: the
  quotient is a float, NaN propagates, None and strings raise TypeError.
\<close>

fun py_truediv :: "pyval \<Rightarrow> rat \<Rightarrow> error + pyval" where
  "py_truediv (PInt n) b = Inr (PFloat (of_int n / b))"
| "py_truediv (PFloat x) b = Inr (PFloat (x / b))"
| "py_truediv PNaN b = Inr PNaN"
| "py_truediv PNone b = Inl TypeError"
| "py_truediv (PStr s) b = Inl TypeError"

text \<open>\<open>isinstance(value, (int, float))\<close>: NaN is a float.\<close>

fun is_int_or_float :: "pyval \<Rightarrow> bool" where
  "is_int_or_float (PInt n) = True"
| "is_int_or_float (PFloat x) = True"
| "is_int_or_float PNaN = True"
| "is_int_or_float v = False"

section \<open>Format templates\<close>

text \<open>
  \<open>template.format(value)\<close> is interpreted for the templates of the shape
  \<open>prefix{:[+][,].N(f|%)}suffix\<close> with literal text free of braces around one replacement
  field; every template of the configuration tables has this shape. Any other template
  gives \<open>Unmodelled\<close>.
\<close>

definition is_digit :: "char \<Rightarrow> bool" where
  "is_digit c = (c \<in> set ''0123456789'')"

definition digit_val :: "char \<Rightarrow> nat" where
  "digit_val c = (case map_of (zip ''0123456789'' [0, 1, 2, 3, 4, 5, 6, 7, 8, 9]) c of None \<Rightarrow> 0 | Some n \<Rightarrow> n)"

definition nat_of_digits :: "string \<Rightarrow> nat" where
  "nat_of_digits ds = foldl (\<lambda>acc c. 10 * acc + digit_val c) 0 ds"

record format_spec =
  spec_sign_plus :: bool
  spec_grouping :: bool
  spec_precision :: nat
  spec_percent :: bool

definition parse_spec :: "string \<Rightarrow> format_spec option" where
  "parse_spec s =
     (let sp = (s \<noteq> [] \<and> hd s = CHR ''+'');
          s1 = (if sp then tl s else s);
          gr = (s1 \<noteq> [] \<and> hd s1 = CHR '','');
          s2 = (if gr then tl s1 else s1)
      in case s2 of
           [] \<Rightarrow> None
         | c # s3 \<Rightarrow>
             if c \<noteq> CHR ''.'' then None
             else let ds = takeWhile is_digit s3; ty = dropWhile is_digit s3
                  in if ds = [] then None
                     else if ty = ''f'' \<or> ty = ''%''
                     then Some \<lparr>spec_sign_plus = sp, spec_grouping = gr,
                                 spec_precision = nat_of_digits ds, spec_percent = (ty = ''%'')\<rparr>
                     else None)"

definition is_brace :: "char \<Rightarrow> bool" where
  "is_brace c = (c = CHR 0x7B \<or> c = CHR 0x7D)"

definition parse_template :: "string \<Rightarrow> (string \<times> format_spec \<times> string) option" where
  "parse_template t =
     (let pre = takeWhile (\<lambda>c. \<not> is_brace c) t; r = dropWhile (\<lambda>c. \<not> is_brace c) t
      in case r of
           b # c # r1 \<Rightarrow>
             if b = CHR 0x7B \<and> c = CHR '':''
             then let sp = takeWhile (\<lambda>c. \<not> is_brace c) r1;
                      r2 = dropWhile (\<lambda>c. \<not> is_brace c) r1
                  in (case r2 of
                        [] \<Rightarrow> None
                      | e # suf \<Rightarrow>
                          if e = CHR 0x7D \<and> \<not> (\<exists>x \<in> set suf. is_brace x)
                          then (case parse_spec sp of
                                  None \<Rightarrow> None
                                | Some fs \<Rightarrow> Some (pre, fs, suf))
                          else None)
             else None
         | _ \<Rightarrow> None)"

definition py_format :: "string \<Rightarrow> pyval \<Rightarrow> error + string" where
  "py_format template v =
     (case parse_template template of
        None \<Rightarrow> Inl Unmodelled
      | Some (pre, fs, suf) \<Rightarrow>
          (case v of
             PNone \<Rightarrow> Inl TypeError
           | PStr s \<Rightarrow> Inl ValueError
           | PNaN \<Rightarrow>
               Inr (pre @ (if spec_sign_plus fs then ''+'' else []) @ ''nan''
                    @ (if spec_percent fs then ''%'' else []) @ suf)
           | _ \<Rightarrow>
               Inr (pre
                    @ fmt_fixed (spec_sign_plus fs) (spec_grouping fs) (spec_precision fs)
                        (if spec_percent fs then num_of v * 100 else num_of v)
                    @ (if spec_percent fs then ''%'' else []) @ suf)))"

section \<open>The metric card (ui/metric_card.py)\<close>

text \<open>
  The functions of the module \<open>helpers\<close>. Its other attributes (the imported \<open>math\<close> and
  typing names) are not functions, so a formatter name is accepted exactly when it is
  one of these five.
\<close>

datatype helper =
  FormatCurrency | FormatPercentage | CalculateDeltaPercentage | FormatBytes
  | FormatDurationSeconds

definition helper_functions :: "(string \<times> helper) list" where
  "helper_functions =
     [(''format_currency'', FormatCurrency),
      (''format_percentage'', FormatPercentage),
      (''calculate_delta_percentage'', CalculateDeltaPercentage),
      (''format_bytes'', FormatBytes),
      (''format_duration_seconds'', FormatDurationSeconds)]"

text \<open>\<open>"decimal_places" in inspect.signature(formatter).parameters\<close>\<close>

fun has_decimal_places :: "helper \<Rightarrow> bool" where
  "has_decimal_places CalculateDeltaPercentage = False"
| "has_decimal_places h = True"

text \<open>
  \<open>formatter(value)\<close> and \<open>formatter(value, decimal_places=d)\<close>, the other parameters at
  their defaults. \<open>calculate_delta_percentage\<close> needs a second positional argument, so
  calling it with one raises TypeError.
\<close>

fun call_formatter :: "helper \<Rightarrow> pyval \<Rightarrow> nat option \<Rightarrow> error + string" where
  "call_formatter FormatCurrency v d = format_currency v ''$'' (case d of None \<Rightarrow> 2 | Some n \<Rightarrow> n)"
| "call_formatter FormatPercentage v d = format_percentage v (case d of None \<Rightarrow> 1 | Some n \<Rightarrow> n)"
| "call_formatter FormatBytes v d = format_bytes v ''GB'' (case d of None \<Rightarrow> 2 | Some n \<Rightarrow> n)"
| "call_formatter FormatDurationSeconds v d =
     format_duration_seconds v (case d of None \<Rightarrow> 1 | Some n \<Rightarrow> n)"
| "call_formatter CalculateDeltaPercentage v d = Inl TypeError"

text \<open>
  \<open>int(format_value.split('.')[-1][0])\<close>: the first character after the last dot (of the
  whole string when it has no dot), read as a decimal digit.
\<close>

definition extract_decimal_places :: "string \<Rightarrow> error + nat" where
  "extract_decimal_places format_value =
     (case rev (takeWhile (\<lambda>c. c \<noteq> CHR ''.'') (rev format_value)) of
        [] \<Rightarrow> Inl IndexError
      | c # cs \<Rightarrow> if is_digit c then Inr (digit_val c) else Inl ValueError)"

text \<open>The calls of \<open>st.warning\<close>, with the names and the exception they report.\<close>

datatype warning =
  FormatterFailed string error
  | FormatterNotFound string
  | DeltaFailed string error

text \<open>The arguments handed to \<open>st.metric\<close>.\<close>

record metric_card =
  card_label :: string
  display_value :: string
  display_delta :: "string option"
  delta_color :: "string option"
  card_help :: "string option"

type_synonym theme = "(string \<times> string) list"

text \<open>Truthiness of an optional string and of an optional dictionary.\<close>

fun truthy_str :: "string option \<Rightarrow> bool" where
  "truthy_str None = False"
| "truthy_str (Some s) = (s \<noteq> [])"

fun truthy_dict :: "theme option \<Rightarrow> bool" where
  "truthy_dict None = False"
| "truthy_dict (Some d) = (d \<noteq> [])"

text \<open>
  The value part of \<open>render_metric_card\<close> (the source's lines 40 to 64): the warnings
  shown and then either the display value or the exception that leaves the function.
\<close>

definition render_value ::
  "(rat \<Rightarrow> string) \<Rightarrow> pyval \<Rightarrow> string \<Rightarrow> string option \<Rightarrow> warning list \<times> (error + string)" where
  "render_value float_repr v format_value formatter_func =
     (if truthy_str formatter_func
      then (case map_of helper_functions (the formatter_func) of
              Some formatter \<Rightarrow>
                (let r = (if is_int_or_float v \<and> has_decimal_places formatter
                          then (case extract_decimal_places format_value of
                                  Inl e \<Rightarrow> call_formatter formatter v None
                                | Inr decimal_places \<Rightarrow>
                                    (case call_formatter formatter v (Some decimal_places) of
                                       Inl e \<Rightarrow>
                                         if e = ValueError \<or> e = IndexError
                                         then call_formatter formatter v None
                                         else Inl e
                                     | Inr s \<Rightarrow> Inr s))
                          else call_formatter formatter v None)
                 in case r of
                      Inr s \<Rightarrow> ([], Inr s)
                    | Inl e \<Rightarrow>
                        ([FormatterFailed (the formatter_func) e],
                         Inr (if v \<noteq> PNone then py_str float_repr v else ''N/A'')))
            | None \<Rightarrow>
                ([FormatterNotFound (the formatter_func)],
                 if v \<noteq> PNone then py_format format_value v else Inr ''N/A''))
      else ([], if v \<noteq> PNone then py_format format_value v else Inr ''N/A''))"

text \<open>
  The delta part (lines 67 to 87): the display delta, the delta colour and the warnings.
  Every exception of this part is caught and reported as a warning.
\<close>

definition render_delta ::
  "string \<Rightarrow> pyval \<Rightarrow> pyval \<Rightarrow> string \<Rightarrow> theme option
     \<Rightarrow> warning list \<times> string option \<times> string option" where
  "render_delta label v delta format_delta theme_config =
     (if delta \<noteq> PNone
      then (case calculate_delta_percentage v delta of
              Inl e \<Rightarrow> ([DeltaFailed label e], None, None)
            | Inr None \<Rightarrow> ([], Some ''N/A'', None)
            | Inr (Some delta_percentage) \<Rightarrow>
                (case py_format format_delta (PFloat delta_percentage) of
                   Inl e \<Rightarrow> ([DeltaFailed label e], None, None)
                 | Inr s \<Rightarrow>
                     ([], Some s,
                      if truthy_dict theme_config
                      then (if 0 < delta_percentage then Some ''inverse''
                            else if delta_percentage < 0 then Some ''normal''
                            else Some ''off'')
                      else None)))
      else ([], None, None))"

definition render_metric_card ::
  "(rat \<Rightarrow> string) \<Rightarrow> string \<Rightarrow> pyval \<Rightarrow> pyval \<Rightarrow> string \<Rightarrow> string \<Rightarrow> string option
     \<Rightarrow> string option \<Rightarrow> theme option \<Rightarrow> warning list \<times> (error + metric_card)" where
  "render_metric_card float_repr label v delta format_value format_delta formatter_func
     help_text theme_config =
     (case render_value float_repr v format_value formatter_func of
        (ws, Inl e) \<Rightarrow> (ws, Inl e)
      | (ws, Inr dv) \<Rightarrow>
          (case render_delta label v delta format_delta theme_config of
             (ws', dd, dc) \<Rightarrow>
               (ws @ ws',
                Inr \<lparr>card_label = label, display_value = dv, display_delta = dd,
                     delta_color = dc, card_help = help_text\<rparr>)))"

section \<open>Query results\<close>

text \<open>
  A fetched result (a pandas DataFrame) is a list of column names and a list of rows, a
  row being an association list from column name to cell. A cell that a row does not
  hold is NaN, pandas' missing value.
\<close>

record dataframe =
  df_columns :: "string list"
  df_rows :: "(string \<times> pyval) list list"

definition cell :: "(string \<times> pyval) list \<Rightarrow> string \<Rightarrow> pyval" where
  "cell r c = (case map_of r c of None \<Rightarrow> PNaN | Some v \<Rightarrow> v)"

text \<open>\<open>data.empty\<close>: no rows or no columns.\<close>

definition df_empty :: "dataframe \<Rightarrow> bool" where
  "df_empty data = (df_columns data = [] \<or> df_rows data = [])"

text \<open>\<open>col in data.columns\<close>\<close>

definition has_col :: "dataframe \<Rightarrow> string \<Rightarrow> bool" where
  "has_col data c = (c \<in> set (df_columns data))"

text \<open>\<open>data[col]\<close>: the cells of a column, KeyError when there is no such column.\<close>

definition column :: "dataframe \<Rightarrow> string \<Rightarrow> error + pyval list" where
  "column data c =
     (if has_col data c then Inr (map (\<lambda>r. cell r c) (df_rows data)) else Inl KeyError)"

text \<open>\<open>data[col].iloc[0]\<close>: IndexError when the column has no row.\<close>

definition iloc0 :: "dataframe \<Rightarrow> string \<Rightarrow> error + pyval" where
  "iloc0 data c =
     (case column data c of
        Inl e \<Rightarrow> Inl e
      | Inr [] \<Rightarrow> Inl IndexError
      | Inr (v # vs) \<Rightarrow> Inr v)"

text \<open>
  \<open>data[col].sum()\<close>: missing values (NaN, None) are skipped, a string makes the
  arithmetic that follows raise TypeError.
\<close>

fun series_sum :: "pyval list \<Rightarrow> error + rat" where
  "series_sum [] = Inr 0"
| "series_sum (PStr s # vs) = Inl TypeError"
| "series_sum (v # vs) =
     (case series_sum vs of Inl e \<Rightarrow> Inl e | Inr t \<Rightarrow> Inr (num_of v + t))"

text \<open>Running a fallible function over a list, stopping at the first exception.\<close>

fun map_err :: "('a \<Rightarrow> error + 'b) \<Rightarrow> 'a list \<Rightarrow> error + 'b list" where
  "map_err f [] = Inr []"
| "map_err f (x # xs) =
     (case f x of
        Inl e \<Rightarrow> Inl e
      | Inr y \<Rightarrow> (case map_err f xs of Inl e \<Rightarrow> Inl e | Inr ys \<Rightarrow> Inr (y # ys)))"

text \<open>
  The execution collaborator \<open>DataFetcher.execute_query\<close> is a parameter of the model: a
  function from the query identifier and the bound parameters to a result, \<open>None\<close> when
  it raises DataFetchError (the only exception it lets out).
\<close>

datatype param = DateParam date | StrParam string | NoneParam

type_synonym params = "(string \<times> param) list"

type_synonym fetcher = "string \<Rightarrow> params \<Rightarrow> dataframe option"

section \<open>The pie chart (ui/chart_renderer.py)\<close>

text \<open>
  Lines 120 to 126 of \<open>_render_pie_chart\<close>: the column \<open>percentage\<close> computed from the
  cells of the value column.
\<close>

definition pie_percentages :: "pyval list \<Rightarrow> error + pyval list" where
  "pie_percentages vs =
     (case series_sum vs of
        Inl e \<Rightarrow> Inl e
      | Inr tot \<Rightarrow>
          if 0 < tot then map_err (\<lambda>v. py_truediv v tot) vs
          else Inr (map (\<lambda>v. PInt 0) vs))"

record pie_config =
  pie_name_col :: "string option"
  pie_value_col :: "string option"
  pie_title :: "string option"

text \<open>
  What the pie renderer shows: a warning with the raw table when a required column is
  missing, else the chart over the table extended by the column \<open>percentage\<close>.
\<close>

datatype chart_widget =
  NoDataInfo string
  | MissingPieColumns string dataframe
  | PieChart string dataframe

definition with_percentage :: "dataframe \<Rightarrow> pyval list \<Rightarrow> dataframe" where
  "with_percentage data ps =
     \<lparr>df_columns = (if ''percentage'' \<in> set (df_columns data) then df_columns data
                     else df_columns data @ [''percentage'']),
      df_rows = map (\<lambda>(r, p). (''percentage'', p) # r) (zip (df_rows data) ps)\<rparr>"

definition render_pie_chart :: "dataframe \<Rightarrow> pie_config \<Rightarrow> error + chart_widget" where
  "render_pie_chart data config =
     (let title = (case pie_title config of None \<Rightarrow> ''Pie Chart'' | Some t \<Rightarrow> t)
      in case (pie_name_col config, pie_value_col config) of
           (Some name_col, Some value_col) \<Rightarrow>
             if has_col data name_col \<and> has_col data value_col
             then (case column data value_col of
                     Inl e \<Rightarrow> Inl e
                   | Inr vs \<Rightarrow>
                       (case pie_percentages vs of
                          Inl e \<Rightarrow> Inl e
                        | Inr ps \<Rightarrow> Inr (PieChart title (with_percentage data ps))))
             else Inr (MissingPieColumns title data)
         | _ \<Rightarrow> Inr (MissingPieColumns title data))"

text \<open>\<open>render_chart\<close> for a configuration of chart type \<open>pie\<close>: an empty result shows a notice.\<close>

definition render_chart_pie :: "dataframe \<Rightarrow> pie_config \<Rightarrow> error + chart_widget" where
  "render_chart_pie data config =
     (if df_empty data
      then Inr (NoDataInfo (case pie_title config of None \<Rightarrow> ''this chart'' | Some t \<Rightarrow> t))
      else render_pie_chart data config)"

section \<open>The metric section (modules/dashboard_sections.py, models/dashboard_configs.py)\<close>

text \<open>
  A metric definition is a dictionary read with \<open>config.get\<close>: a key that is absent, or
  present with the value \<open>None\<close>, reads as \<open>None\<close>.
\<close>

record metric_config =
  cfg_label :: "string option"
  cfg_query_id :: "string option"
  cfg_value_col :: "string option"
  cfg_delta_col :: "string option"
  cfg_format_value :: "string option"
  cfg_format_delta :: "string option"
  cfg_formatter_func :: "string option"
  cfg_help_text :: "string option"

definition METRIC_CARD_CONFIGS :: "(string \<times> metric_config list) list" where
  "METRIC_CARD_CONFIGS =
     [
      (''OVERVIEW_METRICS'',
       [
        \<lparr>cfg_label = Some ''Total Credits Used'',
          cfg_query_id = Some ''TOTAL_COST_AND_CREDITS_OVERVIEW'',
          cfg_value_col = Some ''TOTAL_CREDITS'',
          cfg_delta_col = Some ''PREV_TOTAL_CREDITS'',
          cfg_format_value = Some ''{:,.0f}'',
          cfg_format_delta = Some ''{:+.2%}'',
          cfg_formatter_func = None,
          cfg_help_text = Some ''Total Snowflake credits consumed in the selected period.''\<rparr>,
        \<lparr>cfg_label = Some ''Estimated Total Cost'',
          cfg_query_id = Some ''TOTAL_COST_AND_CREDITS_OVERVIEW'',
          cfg_value_col = Some ''ESTIMATED_COST_USD'',
          cfg_delta_col = Some ''PREV_ESTIMATED_COST_USD'',
          cfg_format_value = Some ''${:,.2f}'',
          cfg_format_delta = Some ''{:+.2%}'',
          cfg_formatter_func = None,
          cfg_help_text = Some ''Estimated cost based on consumed credits (assuming $2/credit).''\<rparr>]),
      (''USER_360_METRICS'',
       [
        \<lparr>cfg_label = Some ''Total Credits (User)'',
          cfg_query_id = Some ''USER_360_SUMMARY_METRICS'',
          cfg_value_col = Some ''TOTAL_CREDITS'',
          cfg_delta_col = Some ''PREV_TOTAL_CREDITS'',
          cfg_format_value = Some ''{:,.0f}'',
          cfg_format_delta = Some ''{:+.2%}'',
          cfg_formatter_func = None,
          cfg_help_text = Some ''Total Snowflake credits consumed by this user in the selected period.''\<rparr>,
        \<lparr>cfg_label = Some ''Estimated Cost (User)'',
          cfg_query_id = Some ''USER_360_SUMMARY_METRICS'',
          cfg_value_col = Some ''ESTIMATED_COST_USD'',
          cfg_delta_col = Some ''PREV_ESTIMATED_COST_USD'',
          cfg_format_value = Some ''${:,.2f}'',
          cfg_format_delta = Some ''{:+.2%}'',
          cfg_formatter_func = None,
          cfg_help_text = Some ''Estimated cost for this user (assuming $2/credit).''\<rparr>,
        \<lparr>cfg_label = Some ''Avg. Query Duration'',
          cfg_query_id = Some ''USER_360_SUMMARY_METRICS'',
          cfg_value_col = Some ''AVG_QUERY_DURATION_SEC'',
          cfg_delta_col = None,
          cfg_format_value = Some ''{:,.1f}s'',
          cfg_format_delta = None,
          cfg_formatter_func = Some ''format_duration_seconds'',
          cfg_help_text = Some ''Average execution time of queries run by this user.''\<rparr>,
        \<lparr>cfg_label = Some ''Avg. Credits/Query'',
          cfg_query_id = Some ''USER_360_SUMMARY_METRICS'',
          cfg_value_col = Some ''AVG_CREDITS_PER_QUERY'',
          cfg_delta_col = None,
          cfg_format_value = Some ''{:,.3f}'',
          cfg_format_delta = None,
          cfg_formatter_func = None,
          cfg_help_text = Some ''Average credits consumed per query by this user. High value might indicate inefficient queries.''\<rparr>,
        \<lparr>cfg_label = Some ''Total Query Count'',
          cfg_query_id = Some ''USER_360_SUMMARY_METRICS'',
          cfg_value_col = Some ''TOTAL_QUERY_COUNT'',
          cfg_delta_col = None,
          cfg_format_value = Some ''{:,.0f}'',
          cfg_format_delta = None,
          cfg_formatter_func = None,
          cfg_help_text = Some ''Total number of queries executed by this user.''\<rparr>,
        \<lparr>cfg_label = Some ''Failed Query Rate'',
          cfg_query_id = Some ''USER_360_SUMMARY_METRICS'',
          cfg_value_col = Some ''FAILED_QUERY_RATE'',
          cfg_delta_col = None,
          cfg_format_value = Some ''{:.1%}'',
          cfg_format_delta = None,
          cfg_formatter_func = Some ''format_percentage'',
          cfg_help_text = Some ''Percentage of queries that failed for this user. High rate indicates issues.''\<rparr>,
        \<lparr>cfg_label = Some ''Total Data Scanned'',
          cfg_query_id = Some ''USER_360_SUMMARY_METRICS'',
          cfg_value_col = Some ''TOTAL_BYTES_SCANNED'',
          cfg_delta_col = None,
          cfg_format_value = Some ''{:,.2f} GB'',
          cfg_format_delta = None,
          cfg_formatter_func = Some ''format_bytes'',
          cfg_help_text = Some ''Total data scanned by user's queries. High volume can lead to high cost.''\<rparr>]),
      (''WAREHOUSE_METRICS'',
       [
        \<lparr>cfg_label = Some ''Total Credits (Warehouse)'',
          cfg_query_id = Some ''WAREHOUSE_SUMMARY_METRICS'',
          cfg_value_col = Some ''TOTAL_CREDITS_USED'',
          cfg_delta_col = Some ''PREV_TOTAL_CREDITS_USED'',
          cfg_format_value = Some ''{:,.0f}'',
          cfg_format_delta = Some ''{:+.2%}'',
          cfg_formatter_func = None,
          cfg_help_text = Some ''Total Snowflake credits consumed by this warehouse in the selected period.''\<rparr>,
        \<lparr>cfg_label = Some ''Estimated Cost (Warehouse)'',
          cfg_query_id = Some ''WAREHOUSE_SUMMARY_METRICS'',
          cfg_value_col = Some ''ESTIMATED_COST_USD'',
          cfg_delta_col = Some ''PREV_ESTIMATED_COST_USD'',
          cfg_format_value = Some ''${:,.2f}'',
          cfg_format_delta = Some ''{:+.2%}'',
          cfg_formatter_func = None,
          cfg_help_text = Some ''Estimated cost for this warehouse (assuming $2/credit).''\<rparr>,
        \<lparr>cfg_label = Some ''Idle Percentage'',
          cfg_query_id = Some ''WAREHOUSE_SUMMARY_METRICS'',
          cfg_value_col = Some ''IDLE_PERCENTAGE'',
          cfg_delta_col = None,
          cfg_format_value = Some ''{:.1%}'',
          cfg_format_delta = None,
          cfg_formatter_func = Some ''format_percentage'',
          cfg_help_text = Some ''Percentage of time the warehouse was running but idle. High value indicates over-provisioning or poor auto-suspend settings.''\<rparr>,
        \<lparr>cfg_label = Some ''Total Active Minutes'',
          cfg_query_id = Some ''WAREHOUSE_SUMMARY_METRICS'',
          cfg_value_col = Some ''ACTIVE_MINUTES'',
          cfg_delta_col = None,
          cfg_format_value = Some ''{:,.0f} min'',
          cfg_format_delta = None,
          cfg_formatter_func = None,
          cfg_help_text = Some ''Total minutes the warehouse was actively processing queries.''\<rparr>,
        \<lparr>cfg_label = Some ''Auto Suspend'',
          cfg_query_id = Some ''WAREHOUSE_SUMMARY_METRICS'',
          cfg_value_col = Some ''AUTO_SUSPEND'',
          cfg_delta_col = None,
          cfg_format_value = Some ''{:,.0f} s'',
          cfg_format_delta = None,
          cfg_formatter_func = None,
          cfg_help_text = Some ''Current AUTO_SUSPEND setting for the warehouse.''\<rparr>])]"

text \<open>\<open>APP_THEME\<close>, with the values written as text; only its being non-empty matters here.\<close>

definition APP_THEME :: theme where
  "APP_THEME =
     [(''primary_color'', ''#007BFF''),
      (''background_color'', ''#F0F2F6''),
      (''secondary_background_color'', ''#FFFFFF''),
      (''text_color'', ''#212529''),
      (''font'', ''Segoe UI''),
      (''chart_height'', ''350''),
      (''chart_colors'',
       ''#007BFF #28A745 #FFC107 #DC3545 #6F42C1 #17A2B8 #FD7E14 #E83E8C #6C757D #20C997'')]"

text \<open>
  Lines 80 to 98 of \<open>display_metric_section\<close>: the current value and the baseline handed
  to the metric card, or the exception raised on the way.
\<close>

definition resolve_metric_values ::
  "string \<Rightarrow> string \<Rightarrow> string \<Rightarrow> string option \<Rightarrow> dataframe \<Rightarrow> error + (pyval \<times> pyval)" where
  "resolve_metric_values section_key label value_col delta_col data =
     (case (if \<not> df_empty data \<and> has_col data value_col
            then (case iloc0 data value_col of
                    Inl e \<Rightarrow> Inl e
                  | Inr current_value \<Rightarrow>
                      if truthy_str delta_col \<and> has_col data (the delta_col)
                      then (case iloc0 data (the delta_col) of
                              Inl e \<Rightarrow> Inl e
                            | Inr previous_value \<Rightarrow> Inr (current_value, previous_value))
                      else Inr (current_value, PNone))
            else Inr (PNone, PNone)) of
        Inl e \<Rightarrow> Inl e
      | Inr (current_value, previous_value) \<Rightarrow>
          if label = ''Failed Query Rate'' \<and> section_key = ''USER_360_METRICS''
          then (case (if has_col data ''TOTAL_QUERY_COUNT'' \<and> \<not> df_empty data
                      then iloc0 data ''TOTAL_QUERY_COUNT'' else Inr (PInt 0)) of
                  Inl e \<Rightarrow> Inl e
                | Inr total_queries \<Rightarrow>
                    (case (if has_col data ''FAILED_QUERY_COUNT'' \<and> \<not> df_empty data
                           then iloc0 data ''FAILED_QUERY_COUNT'' else Inr (PInt 0)) of
                       Inl e \<Rightarrow> Inl e
                     | Inr failed_queries \<Rightarrow>
                         (case py_gt total_queries 0 of
                            Inl e \<Rightarrow> Inl e
                          | Inr True \<Rightarrow>
                              (case py_truediv failed_queries (num_of total_queries) of
                                 Inl e \<Rightarrow> Inl e
                               | Inr q \<Rightarrow> Inr (q, PNone))
                          | Inr False \<Rightarrow> Inr (PFloat 0, PNone))))
          else Inr (current_value, previous_value))"

text \<open>The error boxes and the warning box of the section, and everything it shows.\<close>

datatype box =
  NoMetricConfigs string
  | IncompleteConfig string
  | FailedToLoad string
  | MissingExpectedColumns string
  | UnexpectedError string error

datatype widget =
  SectionHeader string
  | WarningBox box
  | ErrorBox box
  | Warning warning
  | Metric metric_card

definition starts_with :: "string \<Rightarrow> string \<Rightarrow> bool" where
  "starts_with s p = (take (length p) s = p)"

definition metric_params ::
  "string \<Rightarrow> date \<Rightarrow> date \<Rightarrow> date \<Rightarrow> date \<Rightarrow> string option \<Rightarrow> params" where
  "metric_params section_key start_date end_date prev_start_date prev_end_date selected_entity =
     [(''start_date'', DateParam start_date), (''end_date'', DateParam end_date),
      (''prev_start_date'', DateParam prev_start_date),
      (''prev_end_date'', DateParam prev_end_date)]
     @ (if truthy_str selected_entity
        then (if starts_with section_key ''USER_''
              then [(''selected_user_name'', StrParam (the selected_entity))]
              else if starts_with section_key ''WAREHOUSE_''
              then [(''selected_warehouse_name'', StrParam (the selected_entity))]
              else [])
        else [])"

text \<open>
  The body of the loop over the metric definitions (lines 51 to 116): what one
  definition shows. Every exception raised inside the \<open>try\<close> is caught there and turned
  into an error box, so the step itself never raises.
\<close>

definition render_metric ::
  "fetcher \<Rightarrow> (rat \<Rightarrow> string) \<Rightarrow> string \<Rightarrow> params \<Rightarrow> metric_config \<Rightarrow> widget list" where
  "render_metric execute_query float_repr section_key query_params config =
     (let label = (case cfg_label config of None \<Rightarrow> ''Unknown Metric'' | Some l \<Rightarrow> l);
          format_value = (case cfg_format_value config of None \<Rightarrow> ''{:,.0f}'' | Some f \<Rightarrow> f);
          format_delta = (case cfg_format_delta config of None \<Rightarrow> ''{:+.2%}'' | Some f \<Rightarrow> f)
      in if \<not> truthy_str (cfg_query_id config) \<or> \<not> truthy_str (cfg_value_col config)
         then [ErrorBox (IncompleteConfig label)]
         else (case execute_query (the (cfg_query_id config)) query_params of
                 None \<Rightarrow> [ErrorBox (FailedToLoad label)]
               | Some data \<Rightarrow>
                   (case resolve_metric_values section_key label (the (cfg_value_col config))
                           (cfg_delta_col config) data of
                      Inl e \<Rightarrow>
                        [ErrorBox (if e = KeyError then MissingExpectedColumns label
                                   else UnexpectedError label e)]
                    | Inr (current_value, previous_value) \<Rightarrow>
                        (case render_metric_card float_repr label current_value previous_value
                                format_value format_delta (cfg_formatter_func config)
                                (cfg_help_text config) (Some APP_THEME) of
                           (ws, Inr mc) \<Rightarrow> map Warning ws @ [Metric mc]
                         | (ws, Inl e) \<Rightarrow>
                             map Warning ws
                             @ [ErrorBox (if e = KeyError then MissingExpectedColumns label
                                          else UnexpectedError label e)]))))"

text \<open>
  \<open>display_metric_section\<close>: everything shown, and the exception that leaves the function
  if there is one (only the period calculation runs outside a \<open>try\<close>). The placement of
  the cards in layout columns is not modelled.
\<close>

definition display_metric_section ::
  "fetcher \<Rightarrow> (rat \<Rightarrow> string) \<Rightarrow> string \<Rightarrow> string \<Rightarrow> date \<Rightarrow> date \<Rightarrow> string option
     \<Rightarrow> widget list \<times> error option" where
  "display_metric_section execute_query float_repr section_title section_key start_date end_date
     selected_entity =
     (let metric_configs =
            (case map_of METRIC_CARD_CONFIGS section_key of None \<Rightarrow> [] | Some cs \<Rightarrow> cs)
      in if metric_configs = []
         then ([SectionHeader section_title, WarningBox (NoMetricConfigs section_key)], None)
         else (case calculate_prev_period_dates start_date end_date of
                 Inl e \<Rightarrow> ([SectionHeader section_title], Some e)
               | Inr (prev_start_date, prev_end_date) \<Rightarrow>
                   (SectionHeader section_title
                    # concat (map (render_metric execute_query float_repr section_key
                                     (metric_params section_key start_date end_date
                                        prev_start_date prev_end_date selected_entity))
                                metric_configs),
                    None)))"

section \<open>The recommendation engine (insights/recommendations.py)\<close>

text \<open>Sequencing of steps that may raise: the first exception ends the sequence.\<close>

definition and_then :: "error + 'a \<Rightarrow> ('a \<Rightarrow> error + 'b) \<Rightarrow> error + 'b" where
  "and_then r f = (case r of Inl e \<Rightarrow> Inl e | Inr x \<Rightarrow> f x)"

text \<open>\<open>row[col]\<close> for a row of \<open>iterrows\<close>: KeyError when the table has no such column.\<close>

definition row_cell :: "dataframe \<Rightarrow> (string \<times> pyval) list \<Rightarrow> string \<Rightarrow> error + pyval" where
  "row_cell data r c = (if has_col data c then Inr (cell r c) else Inl KeyError)"

text \<open>The warning boxes shown when a fetch fails, by the data they name.\<close>

datatype fetch_warning = WarehouseDataWarning | TotalCostDataWarning | UserDataWarning

text \<open>The previous period as query parameters (it is computed twice, with the same result).\<close>

definition prev_period_params :: "date \<Rightarrow> date \<Rightarrow> error + params" where
  "prev_period_params start_date end_date =
     and_then (calculate_prev_period_dates start_date end_date) (\<lambda>(ps, pe).
     and_then (calculate_prev_period_dates start_date end_date) (\<lambda>(ps', pe').
       Inr [(''prev_start_date'', DateParam ps), (''prev_end_date'', DateParam pe')]))"

subsection \<open>Account-wide rules (lines 36 to 80)\<close>

text \<open>
  The rows of the summary with \<open>IDLE_PERCENTAGE > 20\<close> and \<open>TOTAL_CREDITS_USED > 0\<close>; both
  comparisons run over the whole column before the rows are selected.
\<close>

definition high_idle_warehouses :: "dataframe \<Rightarrow> error + (string \<times> pyval) list list" where
  "high_idle_warehouses warehouse_summary =
     and_then (column warehouse_summary ''IDLE_PERCENTAGE'') (\<lambda>idle.
     and_then (map_err (\<lambda>v. py_gt v 20) idle) (\<lambda>m1.
     and_then (column warehouse_summary ''TOTAL_CREDITS_USED'') (\<lambda>credits.
     and_then (map_err (\<lambda>v. py_gt v 0) credits) (\<lambda>m2.
       Inr (map fst (filter (\<lambda>(r, keep). keep)
                       (zip (df_rows warehouse_summary)
                            (map (\<lambda>(a, b). a \<and> b) (zip m1 m2)))))))))"

definition high_idle_advisory ::
  "(rat \<Rightarrow> string) \<Rightarrow> dataframe \<Rightarrow> (string \<times> pyval) list \<Rightarrow> error + string" where
  "high_idle_advisory float_repr warehouse_summary r =
     and_then (row_cell warehouse_summary r ''WAREHOUSE_NAME'') (\<lambda>name.
     and_then (row_cell warehouse_summary r ''SIZE'') (\<lambda>sz.
     and_then (row_cell warehouse_summary r ''IDLE_PERCENTAGE'') (\<lambda>idle.
     and_then (py_truediv idle 100) (\<lambda>fraction.
     and_then (format_percentage fraction 1) (\<lambda>pct.
       Inr (''Consider adjusting auto-suspend for warehouse **'' @ py_str float_repr name @ ''** ''
            @ ''(Size: '' @ py_str float_repr sz @ '') due to **'' @ pct @ ''** idle time. ''
            @ ''A shorter auto-suspend period can reduce costs.''))))))"

definition overview_idle_rule ::
  "fetcher \<Rightarrow> (rat \<Rightarrow> string) \<Rightarrow> date \<Rightarrow> date \<Rightarrow> error + (string list \<times> fetch_warning list)" where
  "overview_idle_rule execute_query float_repr start_date end_date =
     (case execute_query ''WAREHOUSE_SUMMARY_METRICS''
             [(''start_date'', DateParam start_date), (''end_date'', DateParam end_date),
              (''selected_warehouse_name'', NoneParam)] of
        None \<Rightarrow> Inr ([], [WarehouseDataWarning])
      | Some warehouse_summary \<Rightarrow>
          if \<not> df_empty warehouse_summary
          then and_then (high_idle_warehouses warehouse_summary) (\<lambda>rows.
               and_then (map_err (high_idle_advisory float_repr warehouse_summary) rows) (\<lambda>recs.
                 Inr (recs, [])))
          else Inr ([], []))"

definition cost_increase_advisory :: "rat \<Rightarrow> error + string" where
  "cost_increase_advisory delta_pct =
     and_then (format_percentage (PFloat delta_pct) 1) (\<lambda>pct.
       Inr (''Overall estimated cost increased by **'' @ pct
            @ ''** compared to the previous period. ''
            @ ''Investigate top cost drivers (warehouses, users, services) for potential optimizations.''))"

definition overview_cost_rule ::
  "fetcher \<Rightarrow> date \<Rightarrow> date \<Rightarrow> error + (string list \<times> fetch_warning list)" where
  "overview_cost_rule execute_query start_date end_date =
     and_then (prev_period_params start_date end_date) (\<lambda>prev.
       case execute_query ''TOTAL_COST_AND_CREDITS_OVERVIEW''
              ([(''start_date'', DateParam start_date), (''end_date'', DateParam end_date)] @ prev) of
         None \<Rightarrow> Inr ([], [TotalCostDataWarning])
       | Some total_cost_data \<Rightarrow>
           if \<not> df_empty total_cost_data
           then and_then (iloc0 total_cost_data ''ESTIMATED_COST_USD'') (\<lambda>current_cost.
                and_then (iloc0 total_cost_data ''PREV_ESTIMATED_COST_USD'') (\<lambda>prev_cost.
                and_then (calculate_delta_percentage current_cost prev_cost) (\<lambda>delta_pct.
                  case delta_pct of
                    None \<Rightarrow> Inr ([], [])
                  | Some d \<Rightarrow>
                      if 1 / 10 < d
                      then and_then (cost_increase_advisory d) (\<lambda>s. Inr ([s], []))
                      else Inr ([], []))))
           else Inr ([], []))"

subsection \<open>User rules (lines 84 to 135)\<close>

definition user_duration_rule :: "string \<Rightarrow> pyval \<Rightarrow> error + string list" where
  "user_duration_rule selected_user avg_query_duration_sec =
     (if avg_query_duration_sec \<noteq> PNone
      then and_then (py_gt avg_query_duration_sec 300) (\<lambda>over.
             if over
             then and_then (format_duration_seconds avg_query_duration_sec 1) (\<lambda>d.
                    Inr [''User **'' @ selected_user @ ''** has an average query duration of **''
                         @ d @ ''**. ''
                         @ ''Review long-running queries for optimization (e.g., using better filters, indexing, or materialized views).''])
             else Inr [])
      else Inr [])"

definition user_credits_rule :: "string \<Rightarrow> pyval \<Rightarrow> error + string list" where
  "user_credits_rule selected_user avg_credits_per_query =
     (if avg_credits_per_query \<noteq> PNone
      then and_then (py_gt avg_credits_per_query 1) (\<lambda>over.
             if over
             then Inr [''User **'' @ selected_user
                       @ ''** shows high average credits per query (**''
                       @ fmt_fixed False False 2 (num_of avg_credits_per_query) @ ''**). ''
                       @ ''Suggest reviewing query patterns for potential inefficiencies, especially large scans or joins.'']
             else Inr [])
      else Inr [])"

definition user_failure_rule :: "string \<Rightarrow> pyval \<Rightarrow> pyval \<Rightarrow> error + string list" where
  "user_failure_rule selected_user failed_query_count total_query_count =
     and_then (py_gt total_query_count 0) (\<lambda>any.
       if any
       then and_then (py_truediv failed_query_count (num_of total_query_count)) (\<lambda>rate.
            and_then (py_gt rate (5 / 100)) (\<lambda>over.
              if over
              then and_then (format_percentage rate 1) (\<lambda>pct.
                     Inr [''User **'' @ selected_user @ ''** has a **'' @ pct
                          @ ''** failed query rate. ''
                          @ ''Investigate common errors or complex queries failing frequently to improve user experience and reduce retries.''])
              else Inr []))
       else Inr [])"

definition user_summary_rules :: "string \<Rightarrow> dataframe \<Rightarrow> error + string list" where
  "user_summary_rules selected_user user_summary_data =
     (if \<not> df_empty user_summary_data
      then and_then (iloc0 user_summary_data ''AVG_QUERY_DURATION_SEC'') (\<lambda>avg_query_duration_sec.
           and_then (iloc0 user_summary_data ''AVG_CREDITS_PER_QUERY'') (\<lambda>avg_credits_per_query.
           and_then (iloc0 user_summary_data ''FAILED_QUERY_COUNT'') (\<lambda>failed_query_count.
           and_then (iloc0 user_summary_data ''TOTAL_QUERY_COUNT'') (\<lambda>total_query_count.
           and_then (user_duration_rule selected_user avg_query_duration_sec) (\<lambda>r1.
           and_then (user_credits_rule selected_user avg_credits_per_query) (\<lambda>r2.
           and_then (user_failure_rule selected_user failed_query_count total_query_count) (\<lambda>r3.
             Inr (r1 @ r2 @ r3))))))))
      else Inr [])"

definition user_warehouse_row_rule ::
  "(rat \<Rightarrow> string) \<Rightarrow> string \<Rightarrow> dataframe \<Rightarrow> (string \<times> pyval) list \<Rightarrow> error + string list" where
  "user_warehouse_row_rule float_repr selected_user util r =
     and_then (row_cell util r ''IDLE_PERCENTAGE_ON_WH_USER_USED'') (\<lambda>idle.
       if idle \<noteq> PNone
       then and_then (py_gt idle 20) (\<lambda>over.
              if over
              then and_then (row_cell util r ''WAREHOUSE_NAME'') (\<lambda>name.
                   and_then (py_truediv idle 100) (\<lambda>fraction.
                   and_then (format_percentage fraction 1) (\<lambda>pct.
                     Inr [''User **'' @ selected_user @ ''** frequently uses warehouse **''
                          @ py_str float_repr name @ ''** ''
                          @ ''which has **'' @ pct @ ''** idle time. ''
                          @ ''Ensure the user is selecting the most appropriate warehouse size and auto-suspend settings.''])))
              else Inr [])
       else Inr [])"

definition user_recommendations ::
  "fetcher \<Rightarrow> (rat \<Rightarrow> string) \<Rightarrow> date \<Rightarrow> date \<Rightarrow> string
     \<Rightarrow> error + (string list \<times> fetch_warning list)" where
  "user_recommendations execute_query float_repr start_date end_date selected_user =
     and_then (prev_period_params start_date end_date) (\<lambda>prev.
       case execute_query ''USER_360_SUMMARY_METRICS''
              ([(''start_date'', DateParam start_date), (''end_date'', DateParam end_date)] @ prev
               @ [(''selected_user_name'', StrParam selected_user)]) of
         None \<Rightarrow> Inr ([], [UserDataWarning])
       | Some user_summary_data \<Rightarrow>
           and_then (user_summary_rules selected_user user_summary_data) (\<lambda>recs.
             case execute_query ''USER_WAREHOUSE_UTILIZATION_OVERVIEW''
                    [(''start_date'', DateParam start_date), (''end_date'', DateParam end_date),
                     (''selected_user_name'', StrParam selected_user)] of
               None \<Rightarrow> Inr (recs, [UserDataWarning])
             | Some util \<Rightarrow>
                 if \<not> df_empty util
                 then and_then (map_err (user_warehouse_row_rule float_repr selected_user util)
                                  (df_rows util)) (\<lambda>rs.
                        Inr (recs @ concat rs, []))
                 else Inr (recs, [])))"

subsection \<open>Warehouse rules (lines 138 to 189)\<close>

definition warehouse_idle_rule :: "string \<Rightarrow> pyval \<Rightarrow> pyval \<Rightarrow> error + string list" where
  "warehouse_idle_rule selected_warehouse idle_percentage auto_suspend_setting =
     (if idle_percentage \<noteq> PNone
      then and_then (py_gt idle_percentage 20) (\<lambda>idle.
             if idle
             then and_then (py_gt auto_suspend_setting (60 * 5)) (\<lambda>long.
                    if long
                    then and_then (py_truediv idle_percentage 100) (\<lambda>fraction.
                         and_then (format_percentage fraction 1) (\<lambda>pct.
                         and_then (format_duration_seconds auto_suspend_setting 1) (\<lambda>d.
                           Inr [''Warehouse **'' @ selected_warehouse @ ''** has **'' @ pct
                                @ ''** idle time ''
                                @ ''and an auto-suspend setting of **'' @ d @ ''**. ''
                                @ ''Consider reducing auto-suspend to 1 or 5 minutes to optimize cost.''])))
                    else Inr [])
             else Inr [])
      else Inr [])"

definition warehouse_queue_rule :: "string \<Rightarrow> dataframe \<Rightarrow> error + string list" where
  "warehouse_queue_rule selected_warehouse queued_time_data =
     (if \<not> df_empty queued_time_data
      then and_then (column queued_time_data ''TOTAL_QUEUED_OVERLOAD_TIME_SEC'') (\<lambda>vs.
           and_then (series_sum vs) (\<lambda>total_queued_time.
             if 3600 * (5 / 10) < total_queued_time
             then and_then (format_duration_seconds (PFloat total_queued_time) 1) (\<lambda>d.
                    Inr [''Warehouse **'' @ selected_warehouse @ ''** experienced **'' @ d @ ''** ''
                         @ ''in queued overload time. This may indicate the warehouse is undersized for peak loads. ''
                         @ ''Consider temporarily or permanently increasing its size during high usage periods.''])
             else Inr []))
      else Inr [])"

definition warehouse_size_rule ::
  "(rat \<Rightarrow> string) \<Rightarrow> string \<Rightarrow> date \<Rightarrow> date \<Rightarrow> pyval \<Rightarrow> pyval \<Rightarrow> error + string list" where
  "warehouse_size_rule float_repr selected_warehouse start_date end_date total_active_minutes
     warehouse_size =
     and_then (py_lt total_active_minutes (of_int (end_date - start_date) * 60 * (1 / 10))) (\<lambda>low.
       if low \<and> warehouse_size \<noteq> PStr ''X-SMALL'' \<and> warehouse_size \<noteq> PStr ''SMALL''
       then Inr [''Warehouse **'' @ selected_warehouse
                 @ ''** has relatively low active usage (**''
                 @ py_str float_repr total_active_minutes @ '' minutes**) ''
                 @ ''for its size (**'' @ py_str float_repr warehouse_size
                 @ ''**). If this pattern persists, consider rightsizing to a smaller warehouse.'']
       else Inr [])"

definition warehouse_recommendations ::
  "fetcher \<Rightarrow> (rat \<Rightarrow> string) \<Rightarrow> date \<Rightarrow> date \<Rightarrow> string
     \<Rightarrow> error + (string list \<times> fetch_warning list)" where
  "warehouse_recommendations execute_query float_repr start_date end_date selected_warehouse =
     and_then (prev_period_params start_date end_date) (\<lambda>prev.
       case execute_query ''WAREHOUSE_SUMMARY_METRICS''
              ([(''start_date'', DateParam start_date), (''end_date'', DateParam end_date)] @ prev
               @ [(''selected_warehouse_name'', StrParam selected_warehouse)]) of
         None \<Rightarrow> Inr ([], [WarehouseDataWarning])
       | Some warehouse_summary_data \<Rightarrow>
           if \<not> df_empty warehouse_summary_data
           then and_then (iloc0 warehouse_summary_data ''IDLE_PERCENTAGE'') (\<lambda>idle_percentage.
                and_then (iloc0 warehouse_summary_data ''AUTO_SUSPEND'') (\<lambda>auto_suspend_setting.
                and_then (iloc0 warehouse_summary_data ''SIZE'') (\<lambda>warehouse_size.
                and_then (iloc0 warehouse_summary_data ''ACTIVE_MINUTES'') (\<lambda>total_active_minutes.
                and_then (warehouse_idle_rule selected_warehouse idle_percentage
                            auto_suspend_setting) (\<lambda>r1.
                  case execute_query ''WAREHOUSE_QUEUED_OVERLOAD_TIME_TREND''
                         [(''start_date'', DateParam start_date),
                          (''end_date'', DateParam end_date),
                          (''selected_warehouse_name'', StrParam selected_warehouse)] of
                    None \<Rightarrow> Inr (r1, [WarehouseDataWarning])
                  | Some queued_time_data \<Rightarrow>
                      and_then (warehouse_queue_rule selected_warehouse queued_time_data) (\<lambda>r2.
                      and_then (warehouse_size_rule float_repr selected_warehouse start_date
                                  end_date total_active_minutes warehouse_size) (\<lambda>r3.
                        Inr (r1 @ r2 @ r3, []))))))))
           else Inr ([], []))"

subsection \<open>The whole battery\<close>

text \<open>
  The rules in the source's order, each scope guarded by the selection: the advisories
  appended and the warning boxes shown, or the exception that no \<open>except\<close> clause of the
  function catches.
\<close>

definition run_rules ::
  "fetcher \<Rightarrow> (rat \<Rightarrow> string) \<Rightarrow> date \<Rightarrow> date \<Rightarrow> string option \<Rightarrow> string option
     \<Rightarrow> error + (string list \<times> fetch_warning list)" where
  "run_rules execute_query float_repr start_date end_date selected_user selected_warehouse =
     and_then (if \<not> truthy_str selected_user \<and> \<not> truthy_str selected_warehouse
               then and_then (overview_idle_rule execute_query float_repr start_date end_date)
                      (\<lambda>(r1, w1).
                    and_then (overview_cost_rule execute_query start_date end_date)
                      (\<lambda>(r2, w2). Inr (r1 @ r2, w1 @ w2)))
               else Inr ([], [])) (\<lambda>(ra, wa).
     and_then (if truthy_str selected_user
               then user_recommendations execute_query float_repr start_date end_date
                      (the selected_user)
               else Inr ([], [])) (\<lambda>(rb, wb).
     and_then (if truthy_str selected_warehouse
               then warehouse_recommendations execute_query float_repr start_date end_date
                      (the selected_warehouse)
               else Inr ([], [])) (\<lambda>(rc, wc).
       Inr (ra @ rb @ rc, wa @ wb @ wc))))"

definition no_recommendations :: string where
  "no_recommendations =
     ''No specific recommendations at this time for the selected criteria. Keep monitoring!''"

definition generate_finops_recommendations ::
  "fetcher \<Rightarrow> (rat \<Rightarrow> string) \<Rightarrow> date \<Rightarrow> date \<Rightarrow> string option \<Rightarrow> string option
     \<Rightarrow> error + (string list \<times> fetch_warning list)" where
  "generate_finops_recommendations execute_query float_repr start_date end_date selected_user
     selected_warehouse =
     and_then (run_rules execute_query float_repr start_date end_date selected_user
                 selected_warehouse) (\<lambda>(recommendations, ws).
       if recommendations = [] then Inr ([no_recommendations], ws)
       else Inr (recommendations, ws))"

section \<open>Worked inputs\<close>




definition user_summary_result :: "int \<Rightarrow> int \<Rightarrow> dataframe" where
  "user_summary_result n_total n_failed =
     \<lparr>df_columns = [''TOTAL_QUERY_COUNT'', ''FAILED_QUERY_COUNT''],
      df_rows = [[(''TOTAL_QUERY_COUNT'', PInt n_total),
                  (''FAILED_QUERY_COUNT'', PInt n_failed)]]\<rparr>"

definition failed_query_rate_config :: metric_config where
  "failed_query_rate_config =
     \<lparr>cfg_label = Some ''Failed Query Rate'',
      cfg_query_id = Some ''USER_360_SUMMARY_METRICS'',
      cfg_value_col = Some ''FAILED_QUERY_RATE'',
      cfg_delta_col = None,
      cfg_format_value = Some ''{:.1%}'',
      cfg_format_delta = None,
      cfg_formatter_func = Some ''format_percentage'',
      cfg_help_text = Some ''Percentage of queries that failed for this user. High rate indicates issues.''\<rparr>"

text \<open>
  A warehouse summary with the given idle percentage and auto-suspend setting, served by
  a collaborator that knows no other query.
\<close>

definition warehouse_summary_result :: "int \<Rightarrow> int \<Rightarrow> dataframe" where
  "warehouse_summary_result idle auto =
     \<lparr>df_columns = [''IDLE_PERCENTAGE'', ''AUTO_SUSPEND'', ''SIZE'', ''ACTIVE_MINUTES''],
      df_rows = [[(''IDLE_PERCENTAGE'', PInt idle), (''AUTO_SUSPEND'', PInt auto),
                  (''SIZE'', PStr ''LARGE''), (''ACTIVE_MINUTES'', PInt 5000)]]\<rparr>"

definition warehouse_fetch :: "int \<Rightarrow> int \<Rightarrow> fetcher" where
  "warehouse_fetch idle auto query_id ps =
     (if query_id = ''WAREHOUSE_SUMMARY_METRICS'' then Some (warehouse_summary_result idle auto)
      else None)"

section \<open>Properties\<close>

subsection \<open>Duration formatting\<close>

text \<open>
  C1 (as the code has it). With the default of one decimal place the duration formatter
  first rounds to a whole number of seconds and then prints the seconds component with
  one decimal: 59.4 gives "59.0s" (for the rational 59.4 and for the double nearest to
  it), 60 gives "1m 0.0s", 3661 gives "1h 1m 1.0s", and None gives "N/A".
\<close>

theorem format_duration_default_examples:
  "format_duration_seconds (PFloat (594 / 10)) 1 = Inr ''59.0s''
   \<and> format_duration_seconds (PFloat (8359806808306483 / 2 ^ 47)) 1 = Inr ''59.0s''
   \<and> format_duration_seconds (PInt 60) 1 = Inr ''1m 0.0s''
   \<and> format_duration_seconds (PInt 3661) 1 = Inr ''1h 1m 1.0s''
   \<and> format_duration_seconds PNone 1 = Inr ''N/A''"
  by (intro conjI; code_simp)

text \<open>
  C1 as stated fails: one minute is rendered "1m 0.0s", not "1m 0s".
\<close>

theorem format_duration_sixty_counterexample:
  "format_duration_seconds (PInt 60) 1 = Inr ''1m 0.0s''
   \<and> format_duration_seconds (PInt 60) 1 \<noteq> Inr ''1m 0s''"
  by code_simp

subsection \<open>Relative change\<close>



subsection \<open>Previous period\<close>

text \<open>
  C3 (as the code has it). For dates \<open>start \<le> end\<close>: when the day
  \<open>start - 1 - (end - start)\<close> is not before 0001-01-01, the previous period
  \<open>(prev_start, prev_end)\<close> is returned with \<open>prev_end = start - 1\<close>,
  \<open>prev_end - prev_start = end - start\<close> and \<open>prev_end < start\<close>, both dates valid;
  otherwise the date arithmetic raises OverflowError.
\<close>

theorem calculate_prev_period_dates_adjacent:
  assumes "valid_date start_date" and "valid_date end_date" and "start_date \<le> end_date"
  shows "if MINORDINAL \<le> start_date - 1 - (end_date - start_date)
         then \<exists>prev_start prev_end.
                calculate_prev_period_dates start_date end_date = Inr (prev_start, prev_end)
                \<and> prev_end = start_date - 1
                \<and> prev_end - prev_start = end_date - start_date
                \<and> prev_end < start_date
                \<and> valid_date prev_start \<and> valid_date prev_end
         else calculate_prev_period_dates start_date end_date = Inl OverflowError"
  using assms
  by (auto simp: calculate_prev_period_dates_def date_minus_days_def valid_date_def
      MINORDINAL_def MAXORDINAL_def Let_def)

text \<open>
  The range 2024-01-01 (day 738886) to 2024-01-31 (day 738916) has the previous period
  2023-12-01 (day 738855) to 2023-12-31 (day 738885).
\<close>

theorem calculate_prev_period_dates_adjacent_witness:
  "valid_date 738886 \<and> valid_date 738916 \<and> (738886 :: int) \<le> 738916
   \<and> MINORDINAL \<le> 738886 - 1 - (738916 - 738886)
   \<and> calculate_prev_period_dates 738886 738916 = Inr (738855, 738885)"
  using calculate_prev_period_dates_adjacent [of 738886 738916]
  by (simp add: valid_date_def MINORDINAL_def MAXORDINAL_def)

text \<open>
  C3 as stated fails at the first day of the calendar: for \<open>start = end =\<close> 0001-01-01
  no previous period is returned, \<open>start - 1 day\<close> raises OverflowError.
\<close>

theorem calculate_prev_period_dates_min_counterexample:
  "valid_date 1 \<and> (1 :: int) \<le> 1 \<and> calculate_prev_period_dates 1 1 = Inl OverflowError"
  by (simp add: calculate_prev_period_dates_def date_minus_days_def valid_date_def
      MINORDINAL_def MAXORDINAL_def)

subsection \<open>Byte formatting\<close>

text \<open>
  C10. In \<open>format_bytes\<close> the null check comes before the unit check: a None or NaN value
  gives "N/A" whatever the unit is, while a number with a unit whose upper-case form is
  not one of KB, MB, GB, TB raises ValueError. So \<open>format_bytes(None, "XB")\<close> is "N/A"
  and \<open>format_bytes(100, "XB")\<close> raises.
\<close>

theorem format_bytes_null_check_first:
  "(v = PNone \<or> v = PNaN \<longrightarrow> format_bytes v unit decimal_places = Inr ''N/A'')
   \<and> (is_num v \<and> upper unit \<notin> {''KB'', ''MB'', ''GB'', ''TB''} \<longrightarrow>
        format_bytes v unit decimal_places = Inl ValueError)"
  by (cases v) (auto simp: format_bytes_def units_def)

theorem format_bytes_null_check_first_witness:
  "format_bytes PNone ''XB'' 2 = Inr ''N/A''
   \<and> format_bytes PNaN ''XB'' 2 = Inr ''N/A''
   \<and> format_bytes (PInt 100) ''XB'' 2 = Inl ValueError"
  using format_bytes_null_check_first [of PNone "''XB''" 2]
    format_bytes_null_check_first [of PNaN "''XB''" 2]
    format_bytes_null_check_first [of "PInt 100" "''XB''" 2]
  by (simp add: upper_def upper_char_def)

subsection \<open>Pie shares\<close>

lemma series_sum_numbers:
  "\<forall>v \<in> set vs. is_num v \<Longrightarrow> series_sum vs = Inr (sum_list (map num_of vs))"
proof (induction vs)
  case Nil
  then show ?case by simp
next
  case (Cons a vs)
  then show ?case by (cases a) auto
qed






subsection \<open>Metric cards\<close>

lemmas fmt_eval =
  py_format_def parse_template_def parse_spec_def is_brace_def is_digit_def nat_of_digits_def
  digit_val_def fmt_fixed_def py_round_def show_nat.simps show_int_def group3.simps
  digit_char_def zero_pad_def Let_def

lemmas frame_eval =
  df_empty_def has_col_def iloc0_def column_def cell_def














subsection \<open>The derived failed-query rate\<close>

lemma iloc0_present:
  assumes "\<not> df_empty data" and "has_col data c"
  shows "\<exists>v. iloc0 data c = Inr v"
proof -
  from assms(1) obtain r rs where "df_rows data = r # rs"
    by (cases "df_rows data") (auto simp: df_empty_def)
  with assms(2) show ?thesis
    by (simp add: iloc0_def column_def)
qed

lemma failed_query_rate_section:
  assumes "map_of METRIC_CARD_CONFIGS section_key = Some cfgs"
    and "config \<in> set cfgs"
    and "cfg_label config = Some ''Failed Query Rate''"
  shows "section_key = ''USER_360_METRICS''"
  using assms
  by (auto simp: METRIC_CARD_CONFIGS_def split: if_splits)

lemma resolve_failed_query_rate:
  assumes "\<not> df_empty data"
    and "has_col data ''TOTAL_QUERY_COUNT''" and "has_col data ''FAILED_QUERY_COUNT''"
    and "iloc0 data ''TOTAL_QUERY_COUNT'' = Inr total_queries"
    and "iloc0 data ''FAILED_QUERY_COUNT'' = Inr failed_queries"
    and "is_num total_queries" and "is_num failed_queries"
  shows "resolve_metric_values ''USER_360_METRICS'' ''Failed Query Rate'' value_col delta_col data
         = Inr (if 0 < num_of total_queries
                then PFloat (num_of failed_queries / num_of total_queries)
                else PFloat 0, PNone)"
proof -
  have first: "\<exists>cp. (if \<not> df_empty data \<and> has_col data value_col
            then (case iloc0 data value_col of
                    Inl e \<Rightarrow> Inl e
                  | Inr current_value \<Rightarrow>
                      if truthy_str delta_col \<and> has_col data (the delta_col)
                      then (case iloc0 data (the delta_col) of
                              Inl e \<Rightarrow> Inl e
                            | Inr previous_value \<Rightarrow> Inr (current_value, previous_value))
                      else Inr (current_value, PNone))
            else Inr (PNone, PNone)) = Inr cp"
    using iloc0_present [OF assms(1), of value_col] iloc0_present [OF assms(1), of "the delta_col"]
    by auto
  then obtain cp where cp: "(if \<not> df_empty data \<and> has_col data value_col
            then (case iloc0 data value_col of
                    Inl e \<Rightarrow> Inl e
                  | Inr current_value \<Rightarrow>
                      if truthy_str delta_col \<and> has_col data (the delta_col)
                      then (case iloc0 data (the delta_col) of
                              Inl e \<Rightarrow> Inl e
                            | Inr previous_value \<Rightarrow> Inr (current_value, previous_value))
                      else Inr (current_value, PNone))
            else Inr (PNone, PNone)) = Inr cp" ..
  have gt: "py_gt total_queries 0 = Inr (0 < num_of total_queries)"
    using assms(6) by (cases total_queries) auto
  have dv: "py_truediv failed_queries t = Inr (PFloat (num_of failed_queries / t))" for t
    using assms(7) by (cases failed_queries) auto
  show ?thesis
    unfolding resolve_metric_values_def cp
    using assms(1-5) gt dv
    by (cases cp) simp
qed

text \<open>
  C5. For every metric definition of the configuration table with the label
  "Failed Query Rate", and a fetched result with a row and numbers in the columns
  TOTAL_QUERY_COUNT and FAILED_QUERY_COUNT: the resolved value is the float
  FAILED_QUERY_COUNT / TOTAL_QUERY_COUNT when the total is positive and 0.0 when the
  total is 0 (or negative), never "N/A"; the baseline handed to the card is None, and a
  card rendered without a baseline has no delta and no delta colour.
\<close>

theorem failed_query_rate_derived:
  assumes "map_of METRIC_CARD_CONFIGS section_key = Some cfgs"
    and "config \<in> set cfgs"
    and "cfg_label config = Some ''Failed Query Rate''"
    and "\<not> df_empty data"
    and "has_col data ''TOTAL_QUERY_COUNT''" and "has_col data ''FAILED_QUERY_COUNT''"
    and "iloc0 data ''TOTAL_QUERY_COUNT'' = Inr total_queries"
    and "iloc0 data ''FAILED_QUERY_COUNT'' = Inr failed_queries"
    and "is_num total_queries" and "is_num failed_queries"
  shows "resolve_metric_values section_key ''Failed Query Rate'' (the (cfg_value_col config))
           (cfg_delta_col config) data
         = Inr (if 0 < num_of total_queries
                then PFloat (num_of failed_queries / num_of total_queries)
                else PFloat 0, PNone)
         \<and> (\<forall>v ws mc. render_metric_card float_repr ''Failed Query Rate'' v PNone
                          format_value format_delta formatter_func help_text theme_config
                        = (ws, Inr mc) \<longrightarrow>
                        display_delta mc = None \<and> delta_color mc = None)"
proof -
  have "section_key = ''USER_360_METRICS''"
    using failed_query_rate_section [OF assms(1-3)] by simp
  then have resolved: "resolve_metric_values section_key ''Failed Query Rate''
           (the (cfg_value_col config)) (cfg_delta_col config) data
         = Inr (if 0 < num_of total_queries
                then PFloat (num_of failed_queries / num_of total_queries)
                else PFloat 0, PNone)"
    using resolve_failed_query_rate [OF assms(4-10)] by simp
  have no_delta: "\<forall>v ws mc. render_metric_card float_repr ''Failed Query Rate'' v PNone
                          format_value format_delta formatter_func help_text theme_config
                        = (ws, Inr mc) \<longrightarrow>
                        display_delta mc = None \<and> delta_color mc = None"
    by (auto simp: render_metric_card_def render_delta_def split: prod.splits sum.splits)
  from resolved no_delta show ?thesis by blast
qed

lemma user_summary_cells:
  "\<not> df_empty (user_summary_result t f)
   \<and> has_col (user_summary_result t f) ''TOTAL_QUERY_COUNT''
   \<and> has_col (user_summary_result t f) ''FAILED_QUERY_COUNT''
   \<and> iloc0 (user_summary_result t f) ''TOTAL_QUERY_COUNT'' = Inr (PInt t)
   \<and> iloc0 (user_summary_result t f) ''FAILED_QUERY_COUNT'' = Inr (PInt f)"
  by (simp add: user_summary_result_def frame_eval)

lemma failed_query_rate_in_table:
  "\<exists>cfgs. map_of METRIC_CARD_CONFIGS ''USER_360_METRICS'' = Some cfgs
          \<and> failed_query_rate_config \<in> set cfgs"
  by (simp add: METRIC_CARD_CONFIGS_def failed_query_rate_config_def)

theorem failed_query_rate_derived_witness:
  "resolve_metric_values ''USER_360_METRICS'' ''Failed Query Rate'' ''FAILED_QUERY_RATE'' None
     (user_summary_result 40 3) = Inr (PFloat (3 / 40), PNone)
   \<and> resolve_metric_values ''USER_360_METRICS'' ''Failed Query Rate'' ''FAILED_QUERY_RATE'' None
        (user_summary_result 0 0) = Inr (PFloat 0, PNone)"
proof -
  obtain cfgs where t: "map_of METRIC_CARD_CONFIGS ''USER_360_METRICS'' = Some cfgs"
    and m: "failed_query_rate_config \<in> set cfgs"
    using failed_query_rate_in_table by blast
  have l: "cfg_label failed_query_rate_config = Some ''Failed Query Rate''"
    by (simp add: failed_query_rate_config_def)
  have a: "resolve_metric_values ''USER_360_METRICS'' ''Failed Query Rate''
             (the (cfg_value_col failed_query_rate_config))
             (cfg_delta_col failed_query_rate_config) (user_summary_result 40 3)
           = Inr (PFloat (3 / 40), PNone)"
    using failed_query_rate_derived [OF t m l, of "user_summary_result 40 3" "PInt 40" "PInt 3"]
      user_summary_cells [of 40 3]
    by simp
  have b: "resolve_metric_values ''USER_360_METRICS'' ''Failed Query Rate''
             (the (cfg_value_col failed_query_rate_config))
             (cfg_delta_col failed_query_rate_config) (user_summary_result 0 0)
           = Inr (PFloat 0, PNone)"
    using failed_query_rate_derived [OF t m l, of "user_summary_result 0 0" "PInt 0" "PInt 0"]
      user_summary_cells [of 0 0]
    by simp
  from a b show ?thesis
    by (simp add: failed_query_rate_config_def)
qed


subsection \<open>Warehouse advisories\<close>

lemma format_duration_seconds_number:
  assumes "is_num v"
  shows "\<exists>d. format_duration_seconds v 1 = Inr d"
proof (cases v)
  case (PInt n)
  then show ?thesis
    by (simp add: format_duration_seconds_def Let_def)
next
  case (PFloat x)
  then show ?thesis
    by (simp add: format_duration_seconds_def Let_def)
qed (use assms in simp_all)

lemma py_gt_number: "is_num v \<Longrightarrow> py_gt v c = Inr (c < num_of v)"
  by (cases v) simp_all

lemma py_lt_number: "is_num v \<Longrightarrow> py_lt v c = Inr (num_of v < c)"
  by (cases v) simp_all

lemma py_truediv_number: "is_num v \<Longrightarrow> py_truediv v c = Inr (PFloat (num_of v / c))"
  by (cases v) simp_all

lemma is_num_not_none: "is_num v \<Longrightarrow> v \<noteq> PNone"
  by (cases v) simp_all

lemma warehouse_idle_rule_numbers:
  assumes "is_num idle" and "is_num auto" and "format_duration_seconds auto 1 = Inr d"
  shows "warehouse_idle_rule w idle auto
         = Inr (if 20 < num_of idle \<and> 300 < num_of auto
                then [''Warehouse **'' @ w @ ''** has **''
                      @ fmt_fixed False False 1 (num_of idle / 100 * 100) @ ''%''
                      @ ''** idle time ''
                      @ ''and an auto-suspend setting of **'' @ d @ ''**. ''
                      @ ''Consider reducing auto-suspend to 1 or 5 minutes to optimize cost.'']
                else [])"
  using assms
  by (simp add: warehouse_idle_rule_def and_then_def py_gt_number py_truediv_number
      is_num_not_none format_percentage_def)

lemma warehouse_queue_rule_numbers:
  assumes "df_empty q \<or> (\<exists>vs. column q ''TOTAL_QUEUED_OVERLOAD_TIME_SEC'' = Inr vs
                                 \<and> (\<forall>v \<in> set vs. is_num v))"
  shows "\<exists>r2. warehouse_queue_rule w q = Inr r2
           \<and> (\<forall>s \<in> set r2. \<exists>y. s = ''Warehouse **'' @ w @ ''** experienced **'' @ y)"
proof (cases "df_empty q")
  case True
  then show ?thesis by (simp add: warehouse_queue_rule_def)
next
  case False
  with assms obtain vs where vs: "column q ''TOTAL_QUEUED_OVERLOAD_TIME_SEC'' = Inr vs"
    and nums: "\<forall>v \<in> set vs. is_num v"
    by blast
  have s: "series_sum vs = Inr (sum_list (map num_of vs))"
    using nums by (rule series_sum_numbers)
  obtain d where d: "format_duration_seconds (PFloat (sum_list (map num_of vs))) 1 = Inr d"
    using format_duration_seconds_number [of "PFloat (sum_list (map num_of vs))"] by auto
  show ?thesis
    using False vs s d
    by (simp add: warehouse_queue_rule_def and_then_def)
qed

lemma warehouse_size_rule_numbers:
  assumes "is_num active"
  shows "\<exists>r3. warehouse_size_rule float_repr w start_date end_date active sz = Inr r3
           \<and> (\<forall>s \<in> set r3. \<exists>y. s = ''Warehouse **'' @ w
                                      @ ''** has relatively low active usage (**'' @ y)"
  using assms
  by (simp add: warehouse_size_rule_def and_then_def py_lt_number)

lemma prev_period_params_ok:
  "calculate_prev_period_dates s e = Inr (ps, pe) \<Longrightarrow>
     prev_period_params s e
       = Inr [(''prev_start_date'', DateParam ps), (''prev_end_date'', DateParam pe)]"
  by (simp add: prev_period_params_def and_then_def)

text \<open>
  C8. Warehouse scope (a warehouse selected, no user), the previous period computable,
  the summary fetched with a row whose IDLE_PERCENTAGE, AUTO_SUSPEND and ACTIVE_MINUTES
  are numbers, and the queued-overload query either failing, or empty, or with numbers
  in its column: the engine returns, and when the idle percentage exceeds 20 and the
  auto-suspend setting exceeds 300 seconds its first advisory is the one that names the
  warehouse with its idle time and auto-suspend setting; otherwise no returned string is
  an advisory of that rule. So IDLE_PERCENTAGE = 35 with AUTO_SUSPEND = 600 fires the
  rule and IDLE_PERCENTAGE = 5 does not.
\<close>

theorem warehouse_idle_advisory_rule:
  assumes "selected_warehouse \<noteq> []" and "\<not> truthy_str selected_user"
    and "calculate_prev_period_dates start_date end_date = Inr (ps, pe)"
    and "execute_query ''WAREHOUSE_SUMMARY_METRICS''
           [(''start_date'', DateParam start_date), (''end_date'', DateParam end_date),
            (''prev_start_date'', DateParam ps), (''prev_end_date'', DateParam pe),
            (''selected_warehouse_name'', StrParam selected_warehouse)] = Some summary"
    and "\<not> df_empty summary"
    and "iloc0 summary ''IDLE_PERCENTAGE'' = Inr idle"
    and "iloc0 summary ''AUTO_SUSPEND'' = Inr auto"
    and "iloc0 summary ''SIZE'' = Inr sz"
    and "iloc0 summary ''ACTIVE_MINUTES'' = Inr active"
    and "is_num idle" and "is_num auto" and "is_num active"
    and "case execute_query ''WAREHOUSE_QUEUED_OVERLOAD_TIME_TREND''
                [(''start_date'', DateParam start_date), (''end_date'', DateParam end_date),
                 (''selected_warehouse_name'', StrParam selected_warehouse)] of
           None \<Rightarrow> True
         | Some q \<Rightarrow> df_empty q \<or> (\<exists>vs. column q ''TOTAL_QUEUED_OVERLOAD_TIME_SEC'' = Inr vs
                                        \<and> (\<forall>v \<in> set vs. is_num v))"
  shows "\<exists>out ws d.
           generate_finops_recommendations execute_query float_repr start_date end_date
             selected_user (Some selected_warehouse) = Inr (out, ws)
           \<and> format_duration_seconds auto 1 = Inr d
           \<and> (20 < num_of idle \<and> 300 < num_of auto \<longrightarrow>
                (\<exists>rest. out = (''Warehouse **'' @ selected_warehouse @ ''** has **''
                                @ fmt_fixed False False 1 (num_of idle / 100 * 100) @ ''%''
                                @ ''** idle time ''
                                @ ''and an auto-suspend setting of **'' @ d @ ''**. ''
                                @ ''Consider reducing auto-suspend to 1 or 5 minutes to optimize cost.'')
                               # rest))
           \<and> (\<not> (20 < num_of idle \<and> 300 < num_of auto) \<longrightarrow>
                (\<forall>s \<in> set out. \<forall>x. s \<noteq> ''Warehouse **'' @ selected_warehouse
                                          @ ''** has **'' @ x))"
proof -
  obtain d where d: "format_duration_seconds auto 1 = Inr d"
    using format_duration_seconds_number [OF \<open>is_num auto\<close>] by blast
  define adv where "adv = ''Warehouse **'' @ selected_warehouse @ ''** has **''
                                @ fmt_fixed False False 1 (num_of idle / 100 * 100) @ ''%''
                                @ ''** idle time ''
                                @ ''and an auto-suspend setting of **'' @ d @ ''**. ''
                                @ ''Consider reducing auto-suspend to 1 or 5 minutes to optimize cost.''"
  define r1 where "r1 = (if 20 < num_of idle \<and> 300 < num_of auto then [adv] else [])"
  have r1: "warehouse_idle_rule selected_warehouse idle auto = Inr r1"
    unfolding r1_def adv_def
    using warehouse_idle_rule_numbers [OF \<open>is_num idle\<close> \<open>is_num auto\<close> d] .
  obtain r3 where r3: "warehouse_size_rule float_repr selected_warehouse start_date end_date
                         active sz = Inr r3"
    and r3_form: "\<forall>s \<in> set r3. \<exists>y. s = ''Warehouse **'' @ selected_warehouse
                                      @ ''** has relatively low active usage (**'' @ y"
    using warehouse_size_rule_numbers [OF \<open>is_num active\<close>] by blast
  have "\<exists>rest ws. warehouse_recommendations execute_query float_repr start_date end_date
                     selected_warehouse = Inr (r1 @ rest, ws)
                   \<and> (\<forall>s \<in> set rest. \<forall>x. s \<noteq> ''Warehouse **'' @ selected_warehouse
                                               @ ''** has **'' @ x)"
  proof (cases "execute_query ''WAREHOUSE_QUEUED_OVERLOAD_TIME_TREND''
                [(''start_date'', DateParam start_date), (''end_date'', DateParam end_date),
                 (''selected_warehouse_name'', StrParam selected_warehouse)]")
    case None
    have "warehouse_recommendations execute_query float_repr start_date end_date
            selected_warehouse = Inr (r1 @ [], [WarehouseDataWarning])"
      using assms(3-9) r1 None
      by (simp add: warehouse_recommendations_def prev_period_params_ok and_then_def)
    then show ?thesis by fastforce
  next
    case (Some q)
    with assms(13) have "df_empty q \<or> (\<exists>vs. column q ''TOTAL_QUEUED_OVERLOAD_TIME_SEC'' = Inr vs
                                        \<and> (\<forall>v \<in> set vs. is_num v))"
      by simp
    then obtain r2 where r2: "warehouse_queue_rule selected_warehouse q = Inr r2"
      and r2_form: "\<forall>s \<in> set r2. \<exists>y. s = ''Warehouse **'' @ selected_warehouse
                                        @ ''** experienced **'' @ y"
      using warehouse_queue_rule_numbers by blast
    have "warehouse_recommendations execute_query float_repr start_date end_date
            selected_warehouse = Inr (r1 @ (r2 @ r3), [])"
      using assms(3-9) r1 r2 r3 Some
      by (simp add: warehouse_recommendations_def prev_period_params_ok and_then_def)
    moreover have "\<forall>s \<in> set (r2 @ r3). \<forall>x. s \<noteq> ''Warehouse **'' @ selected_warehouse
                                               @ ''** has **'' @ x"
      using r2_form r3_form by auto
    ultimately show ?thesis by blast
  qed
  then obtain rest ws where wr: "warehouse_recommendations execute_query float_repr start_date
                                   end_date selected_warehouse = Inr (r1 @ rest, ws)"
    and rest_form: "\<forall>s \<in> set rest. \<forall>x. s \<noteq> ''Warehouse **'' @ selected_warehouse
                                            @ ''** has **'' @ x"
    by blast
  have rr: "run_rules execute_query float_repr start_date end_date selected_user
              (Some selected_warehouse) = Inr (r1 @ rest, ws)"
    using assms(1,2) wr
    by (simp add: run_rules_def and_then_def)
  have sentinel: "\<forall>x. no_recommendations \<noteq> ''Warehouse **'' @ selected_warehouse
                                            @ ''** has **'' @ x"
    by (simp add: no_recommendations_def)
  have gen: "generate_finops_recommendations execute_query float_repr start_date end_date
               selected_user (Some selected_warehouse)
             = Inr (if r1 @ rest = [] then [no_recommendations] else r1 @ rest, ws)"
    using rr by (simp add: generate_finops_recommendations_def and_then_def)
  show ?thesis
  proof (cases "20 < num_of idle \<and> 300 < num_of auto")
    case True
    then have "r1 = [adv]" by (simp add: r1_def)
    with gen d True show ?thesis
      by (simp add: adv_def)
  next
    case False
    then have "r1 = []" by (simp add: r1_def)
    with gen d False rest_form sentinel show ?thesis
      by auto
  qed
qed

lemma warehouse_summary_cells:
  "\<not> df_empty (warehouse_summary_result i a)
   \<and> iloc0 (warehouse_summary_result i a) ''IDLE_PERCENTAGE'' = Inr (PInt i)
   \<and> iloc0 (warehouse_summary_result i a) ''AUTO_SUSPEND'' = Inr (PInt a)
   \<and> iloc0 (warehouse_summary_result i a) ''SIZE'' = Inr (PStr ''LARGE'')
   \<and> iloc0 (warehouse_summary_result i a) ''ACTIVE_MINUTES'' = Inr (PInt 5000)"
  by (simp add: warehouse_summary_result_def frame_eval)

lemma january_previous_period:
  "calculate_prev_period_dates 738886 738916 = Inr (738855, 738885)"
  by (simp add: calculate_prev_period_dates_def date_minus_days_def MINORDINAL_def
      MAXORDINAL_def)

lemma ten_minutes: "format_duration_seconds (PInt 600) 1 = Inr ''10m 0.0s''"
  by (simp add: format_duration_seconds_def fmt_eval)

lemma thirty_five_percent: "fmt_fixed False False 1 (num_of (PInt 35) / 100 * 100) = ''35.0''"
  by (simp add: fmt_eval)

theorem warehouse_idle_advisory_rule_witness:
  "(\<exists>rest ws. generate_finops_recommendations (warehouse_fetch 35 600) (\<lambda>x. []) 738886 738916
                 None (Some ''WH1'')
               = Inr (''Warehouse **WH1** has **35.0%** idle time and an auto-suspend setting of **10m 0.0s**. Consider reducing auto-suspend to 1 or 5 minutes to optimize cost.''
                      # rest, ws))
   \<and> (\<exists>out ws. generate_finops_recommendations (warehouse_fetch 5 600) (\<lambda>x. []) 738886 738916
                   None (Some ''WH1'') = Inr (out, ws)
                 \<and> (\<forall>s \<in> set out. \<forall>x. s \<noteq> ''Warehouse **WH1** has **'' @ x))"
proof -
  have fires: "\<exists>out ws d.
           generate_finops_recommendations (warehouse_fetch 35 600) (\<lambda>x. []) 738886 738916
             None (Some ''WH1'') = Inr (out, ws)
           \<and> format_duration_seconds (PInt 600) 1 = Inr d
           \<and> (20 < num_of (PInt 35) \<and> 300 < num_of (PInt 600) \<longrightarrow>
                (\<exists>rest. out = (''Warehouse **'' @ ''WH1'' @ ''** has **''
                                @ fmt_fixed False False 1 (num_of (PInt 35) / 100 * 100) @ ''%''
                                @ ''** idle time ''
                                @ ''and an auto-suspend setting of **'' @ d @ ''**. ''
                                @ ''Consider reducing auto-suspend to 1 or 5 minutes to optimize cost.'')
                               # rest))
           \<and> (\<not> (20 < num_of (PInt 35) \<and> 300 < num_of (PInt 600)) \<longrightarrow>
                (\<forall>s \<in> set out. \<forall>x. s \<noteq> ''Warehouse **'' @ ''WH1'' @ ''** has **'' @ x))"
    by (rule warehouse_idle_advisory_rule [where ps = 738855 and pe = 738885
          and summary = "warehouse_summary_result 35 600" and sz = "PStr ''LARGE''"
          and active = "PInt 5000"])
      (simp_all add: january_previous_period warehouse_summary_cells warehouse_fetch_def)
  have quiet: "\<exists>out ws d.
           generate_finops_recommendations (warehouse_fetch 5 600) (\<lambda>x. []) 738886 738916
             None (Some ''WH1'') = Inr (out, ws)
           \<and> format_duration_seconds (PInt 600) 1 = Inr d
           \<and> (20 < num_of (PInt 5) \<and> 300 < num_of (PInt 600) \<longrightarrow>
                (\<exists>rest. out = (''Warehouse **'' @ ''WH1'' @ ''** has **''
                                @ fmt_fixed False False 1 (num_of (PInt 5) / 100 * 100) @ ''%''
                                @ ''** idle time ''
                                @ ''and an auto-suspend setting of **'' @ d @ ''**. ''
                                @ ''Consider reducing auto-suspend to 1 or 5 minutes to optimize cost.'')
                               # rest))
           \<and> (\<not> (20 < num_of (PInt 5) \<and> 300 < num_of (PInt 600)) \<longrightarrow>
                (\<forall>s \<in> set out. \<forall>x. s \<noteq> ''Warehouse **'' @ ''WH1'' @ ''** has **'' @ x))"
    by (rule warehouse_idle_advisory_rule [where ps = 738855 and pe = 738885
          and summary = "warehouse_summary_result 5 600" and sz = "PStr ''LARGE''"
          and active = "PInt 5000"])
      (simp_all add: january_previous_period warehouse_summary_cells warehouse_fetch_def)
  from fires have first: "\<exists>rest ws. generate_finops_recommendations (warehouse_fetch 35 600)
                 (\<lambda>x. []) 738886 738916 None (Some ''WH1'')
               = Inr (''Warehouse **WH1** has **35.0%** idle time and an auto-suspend setting of **10m 0.0s**. Consider reducing auto-suspend to 1 or 5 minutes to optimize cost.''
                      # rest, ws)"
    unfolding ten_minutes thirty_five_percent by auto
  from quiet have second: "\<exists>out ws. generate_finops_recommendations (warehouse_fetch 5 600)
                   (\<lambda>x. []) 738886 738916 None (Some ''WH1'') = Inr (out, ws)
                 \<and> (\<forall>s \<in> set out. \<forall>x. s \<noteq> ''Warehouse **WH1** has **'' @ x)"
    by auto
  from first second show ?thesis by blast
qed


subsection \<open>The sentinel\<close>

text \<open>
  No rule produces the sentinel: every advisory starts with one of the rule texts,
  none of which starts with the letter N.
\<close>

lemma map_err_all:
  assumes "map_err f xs = Inr ys" and "\<And>x y. f x = Inr y \<Longrightarrow> P y"
  shows "\<forall>y \<in> set ys. P y"
  using assms
proof (induction xs arbitrary: ys)
  case Nil
  then show ?case by simp
next
  case (Cons x xs)
  then show ?case
    by (auto split: sum.splits)
qed

lemma high_idle_advisory_head:
  "high_idle_advisory float_repr data r = Inr s \<Longrightarrow> hd s \<noteq> CHR ''N''"
  by (auto simp: high_idle_advisory_def and_then_def split: sum.splits)

lemma overview_idle_rule_head:
  assumes "overview_idle_rule execute_query float_repr start_date end_date = Inr (recs, ws)"
  shows "\<forall>s \<in> set recs. hd s \<noteq> CHR ''N''"
proof (cases "execute_query ''WAREHOUSE_SUMMARY_METRICS''
             [(''start_date'', DateParam start_date), (''end_date'', DateParam end_date),
              (''selected_warehouse_name'', NoneParam)]")
  case None
  with assms show ?thesis by (simp add: overview_idle_rule_def)
next
  case (Some data)
  show ?thesis
  proof (cases "df_empty data")
    case True
    with assms Some show ?thesis by (simp add: overview_idle_rule_def)
  next
    case False
    with assms Some obtain rows
      where "map_err (high_idle_advisory float_repr data) rows = Inr recs"
      by (auto simp: overview_idle_rule_def and_then_def split: sum.splits)
    then show ?thesis
      by (rule map_err_all) (rule high_idle_advisory_head)
  qed
qed

lemma overview_cost_rule_head:
  assumes "overview_cost_rule execute_query start_date end_date = Inr (recs, ws)"
  shows "\<forall>s \<in> set recs. hd s \<noteq> CHR ''N''"
  using assms
  by (auto simp: overview_cost_rule_def cost_increase_advisory_def and_then_def
      split: sum.splits option.splits if_splits)

lemma user_summary_rules_head:
  assumes "user_summary_rules u data = Inr recs"
  shows "\<forall>s \<in> set recs. hd s \<noteq> CHR ''N''"
proof -
  have d: "user_duration_rule u v = Inr r \<Longrightarrow> \<forall>s \<in> set r. hd s \<noteq> CHR ''N''" for v r
    by (auto simp: user_duration_rule_def and_then_def split: sum.splits if_splits)
  have c: "user_credits_rule u v = Inr r \<Longrightarrow> \<forall>s \<in> set r. hd s \<noteq> CHR ''N''" for v r
    by (auto simp: user_credits_rule_def and_then_def split: sum.splits if_splits)
  have f: "user_failure_rule u a b = Inr r \<Longrightarrow> \<forall>s \<in> set r. hd s \<noteq> CHR ''N''" for a b r
    by (auto simp: user_failure_rule_def and_then_def split: sum.splits if_splits)
  from assms show ?thesis
    by (auto simp: user_summary_rules_def and_then_def split: sum.splits if_splits)
      (blast dest: d c f)+
qed

lemma user_warehouse_row_rule_head:
  "user_warehouse_row_rule float_repr u util r = Inr rs \<Longrightarrow> \<forall>s \<in> set rs. hd s \<noteq> CHR ''N''"
  by (auto simp: user_warehouse_row_rule_def and_then_def split: sum.splits if_splits)

lemma user_recommendations_head:
  assumes "user_recommendations execute_query float_repr start_date end_date u = Inr (recs, ws)"
  shows "\<forall>s \<in> set recs. hd s \<noteq> CHR ''N''"
proof -
  have rows: "map_err (user_warehouse_row_rule float_repr u util) xs = Inr rs \<Longrightarrow>
                \<forall>r \<in> set rs. \<forall>s \<in> set r. hd s \<noteq> CHR ''N''" for util xs rs
    using map_err_all [of "user_warehouse_row_rule float_repr u util" xs rs
        "\<lambda>r. \<forall>s \<in> set r. hd s \<noteq> CHR ''N''"]
      user_warehouse_row_rule_head [of float_repr u util]
    by blast
  from assms show ?thesis
    by (auto simp: user_recommendations_def and_then_def
        split: sum.splits option.splits if_splits)
      (blast dest: user_summary_rules_head rows)+
qed

lemma warehouse_recommendations_head:
  assumes "warehouse_recommendations execute_query float_repr start_date end_date w
           = Inr (recs, ws)"
  shows "\<forall>s \<in> set recs. hd s \<noteq> CHR ''N''"
proof -
  have i: "warehouse_idle_rule w a b = Inr r \<Longrightarrow> \<forall>s \<in> set r. hd s \<noteq> CHR ''N''" for a b r
    by (auto simp: warehouse_idle_rule_def and_then_def split: sum.splits if_splits)
  have q: "warehouse_queue_rule w d = Inr r \<Longrightarrow> \<forall>s \<in> set r. hd s \<noteq> CHR ''N''" for d r
    by (auto simp: warehouse_queue_rule_def and_then_def split: sum.splits if_splits)
  have z: "warehouse_size_rule float_repr w start_date end_date a b = Inr r \<Longrightarrow>
             \<forall>s \<in> set r. hd s \<noteq> CHR ''N''" for a b r
    by (auto simp: warehouse_size_rule_def and_then_def split: sum.splits if_splits)
  from assms show ?thesis
    by (auto simp: warehouse_recommendations_def and_then_def
        split: sum.splits option.splits if_splits)
      (blast dest: i q z)+
qed

lemma run_rules_head:
  assumes "run_rules execute_query float_repr start_date end_date selected_user
             selected_warehouse = Inr (recs, ws)"
  shows "\<forall>s \<in> set recs. hd s \<noteq> CHR ''N''"
  using assms
  by (auto simp: run_rules_def and_then_def
      split: sum.splits if_splits prod.splits)
    (blast dest: overview_idle_rule_head overview_cost_rule_head user_recommendations_head
       warehouse_recommendations_head)+

text \<open>
  C9. When the battery of rules ends without exception: with zero advisories the engine
  returns the one-element list holding the fixed sentinel string, otherwise it returns
  the advisories unchanged; the returned list is never empty, and since no rule produces
  the sentinel, the result is the sentinel alone exactly when there were no advisories.
  An exception that leaves the battery leaves the engine.
\<close>

theorem no_recommendations_sentinel:
  "(\<forall>recs ws. run_rules execute_query float_repr start_date end_date selected_user
                 selected_warehouse = Inr (recs, ws) \<longrightarrow>
      no_recommendations \<notin> set recs
      \<and> generate_finops_recommendations execute_query float_repr start_date end_date
          selected_user selected_warehouse
        = Inr (if recs = [] then [no_recommendations] else recs, ws))
   \<and> (\<forall>out ws. generate_finops_recommendations execute_query float_repr start_date end_date
                  selected_user selected_warehouse = Inr (out, ws) \<longrightarrow>
        out \<noteq> []
        \<and> (out = [no_recommendations]
             \<longleftrightarrow> run_rules execute_query float_repr start_date end_date selected_user
                   selected_warehouse = Inr ([], ws)))
   \<and> (\<forall>e. run_rules execute_query float_repr start_date end_date selected_user
              selected_warehouse = Inl e \<longrightarrow>
        generate_finops_recommendations execute_query float_repr start_date end_date
          selected_user selected_warehouse = Inl e)"
proof -
  have not_produced: "no_recommendations \<notin> set recs"
    if "run_rules execute_query float_repr start_date end_date selected_user
          selected_warehouse = Inr (recs, ws)" for recs ws
    using run_rules_head [OF that] by (auto simp: no_recommendations_def)
  show ?thesis
  proof (cases "run_rules execute_query float_repr start_date end_date selected_user
                  selected_warehouse")
    case (Inl e)
    then show ?thesis
      by (simp add: generate_finops_recommendations_def and_then_def)
  next
    case (Inr p)
    obtain recs ws where p: "p = (recs, ws)" by (cases p)
    have "no_recommendations \<notin> set recs"
      using not_produced Inr p by simp
    with Inr p show ?thesis
      by (cases recs) (auto simp: generate_finops_recommendations_def and_then_def)
  qed
qed

lemma quiet_warehouse_rules:
  "run_rules (warehouse_fetch 5 600) (\<lambda>x. []) 738886 738916 None (Some ''WH1'')
   = Inr ([], [WarehouseDataWarning])"
  by (simp add: run_rules_def warehouse_recommendations_def prev_period_params_def
      and_then_def january_previous_period warehouse_fetch_def warehouse_summary_cells
      warehouse_idle_rule_def)

lemma idle_warehouse_rules:
  "run_rules (warehouse_fetch 35 600) (\<lambda>x. []) 738886 738916 None (Some ''WH1'')
   = Inr ([''Warehouse **WH1** has **35.0%** idle time and an auto-suspend setting of **10m 0.0s**. Consider reducing auto-suspend to 1 or 5 minutes to optimize cost.''],
          [WarehouseDataWarning])"
  by (simp add: run_rules_def warehouse_recommendations_def prev_period_params_def
      and_then_def january_previous_period warehouse_fetch_def warehouse_summary_cells
      warehouse_idle_rule_def format_percentage_def format_duration_seconds_def fmt_eval)

theorem no_recommendations_sentinel_witness:
  "generate_finops_recommendations (warehouse_fetch 5 600) (\<lambda>x. []) 738886 738916 None
     (Some ''WH1'')
   = Inr ([''No specific recommendations at this time for the selected criteria. Keep monitoring!''],
          [WarehouseDataWarning])
   \<and> generate_finops_recommendations (warehouse_fetch 35 600) (\<lambda>x. []) 738886 738916 None
       (Some ''WH1'')
     = Inr ([''Warehouse **WH1** has **35.0%** idle time and an auto-suspend setting of **10m 0.0s**. Consider reducing auto-suspend to 1 or 5 minutes to optimize cost.''],
            [WarehouseDataWarning])"
  using no_recommendations_sentinel [of "warehouse_fetch 5 600" "\<lambda>x. []" 738886 738916 None
      "Some ''WH1''"]
    no_recommendations_sentinel [of "warehouse_fetch 35 600" "\<lambda>x. []" 738886 738916 None
      "Some ''WH1''"]
    quiet_warehouse_rules idle_warehouse_rules
  by (simp add: no_recommendations_def)


end
